theory Spec2Isabelle
  imports Complex_Main
begin

section \<open>Strings\<close>

text \<open>
  A Python \<open>str\<close> is a sequence of Unicode code points; the bot compares Cyrillic
  text, so a string is modelled as the list of its code points.
\<close>

type_synonym pystr = "nat list"

text \<open>Code points for which \<open>str.isspace\<close> holds; \<open>str.strip()\<close> removes them.\<close>

definition unicode_space :: "nat \<Rightarrow> bool" where
  "unicode_space c = (c \<in> set [9, 10, 11, 12, 13, 28, 29, 30, 31, 32, 133, 160, 5760,
     8192, 8193, 8194, 8195, 8196, 8197, 8198, 8199, 8200, 8201, 8202,
     8232, 8233, 8239, 8287, 12288])"

text \<open>The whitespace of the C locale, which the integer parser skips.\<close>

definition ascii_space :: "nat \<Rightarrow> bool" where
  "ascii_space c = (c \<in> set [9, 10, 11, 12, 13, 32])"

text \<open>
  Every run of Unicode decimal digits (general category Nd) is ten consecutive code
  points, zero first; these are the code points of the zeros (Unicode 14).
\<close>

definition decimal_zeros :: "nat list" where
  "decimal_zeros = [48, 1632, 1776, 1984, 2406, 2534, 2662, 2790, 2918, 3046, 3174, 3302,
     3430, 3558, 3664, 3792, 3872, 4160, 4240, 6112, 6160, 6470, 6608, 6784, 6800, 6992,
     7088, 7232, 7248, 42528, 43216, 43264, 43472, 43504, 43600, 44016, 65296, 66720,
     68912, 69734, 69872, 69942, 70096, 70384, 70736, 70864, 71248, 71360, 71472, 71904,
     72016, 72784, 73040, 73120, 92768, 92864, 93008, 120782, 120792, 120802, 120812,
     120822, 123200, 123632, 125264, 130032]"

fun unicode_decimal :: "nat list \<Rightarrow> nat \<Rightarrow> nat option" where
  "unicode_decimal [] c = None"
| "unicode_decimal (z # zs) c =
     (if z \<le> c \<and> c < z + 10 then Some (c - z) else unicode_decimal zs c)"

definition strip :: "pystr \<Rightarrow> pystr" where
  "strip s = rev (dropWhile unicode_space (rev (dropWhile unicode_space s)))"

section \<open>Exceptions\<close>

text \<open>
  The exception classes the program can meet, each carrying \<open>str(e)\<close>.
  \<open>requests.exceptions.JSONDecodeError\<close>, raised by \<open>Response.json()\<close>, is a
  subclass of \<open>RequestException\<close> (requests 2.27 and later).
\<close>

datatype exn =
    RequestException pystr
  | JSONDecodeError pystr
  | ValueError pystr
  | KeyError pystr
  | AttributeError pystr
  | TypeError pystr
  | OSError pystr
  | TelegramAPIError pystr

fun exn_str :: "exn \<Rightarrow> pystr" where
  "exn_str (RequestException m) = m"
| "exn_str (JSONDecodeError m) = m"
| "exn_str (ValueError m) = m"
| "exn_str (KeyError m) = m"
| "exn_str (AttributeError m) = m"
| "exn_str (TypeError m) = m"
| "exn_str (OSError m) = m"
| "exn_str (TelegramAPIError m) = m"

fun is_RequestException :: "exn \<Rightarrow> bool" where
  "is_RequestException (RequestException m) = True"
| "is_RequestException (JSONDecodeError m) = True"
| "is_RequestException e = False"

section \<open>The built-in integer parser\<close>

text \<open>
  \<open>int(s)\<close> on a \<open>str\<close>: a code point below 128 is kept, any other Unicode space
  becomes a blank and any other decimal digit its ASCII digit; anything else cannot be
  parsed (it is mapped to the question mark, which the parser rejects).
\<close>

definition to_ascii :: "nat \<Rightarrow> nat" where
  "to_ascii c =
     (if c < 128 then c
      else if unicode_space c then 32
      else (case unicode_decimal decimal_zeros c of Some d \<Rightarrow> 48 + d | None \<Rightarrow> 63))"

definition is_digit :: "nat \<Rightarrow> bool" where
  "is_digit c = (48 \<le> c \<and> c \<le> 57)"

definition digit_or_underscore :: "nat \<Rightarrow> bool" where
  "digit_or_underscore c = (is_digit c \<or> c = 95)"

fun double_underscore :: "nat list \<Rightarrow> bool" where
  "double_underscore (a # b # cs) = ((a = 95 \<and> b = 95) \<or> double_underscore (b # cs))"
| "double_underscore cs = False"

text \<open>The message of the parser's error without the quoted literal; no caller reads it.\<close>

definition invalid_literal :: pystr where
  "invalid_literal = [105, 110, 118, 97, 108, 105, 100, 32, 108, 105, 116, 101, 114, 97, 108]"

definition exceeds_limit :: pystr where
  "exceeds_limit = [69, 120, 99, 101, 101, 100, 115, 32, 116, 104, 101, 32, 108, 105, 109, 105, 116]"

text \<open>\<open>sys.int_info.default_max_str_digits\<close>\<close>

definition max_str_digits :: nat where
  "max_str_digits = 4300"

definition digits_value :: "nat list \<Rightarrow> int" where
  "digits_value ds = foldl (\<lambda>v c. v * 10 + int (c - 48)) 0 ds"

text \<open>
  Leading blanks, an optional sign, digits with single underscores between them, trailing
  blanks, and nothing else; more than 4300 digits are refused.
\<close>

definition py_int :: "pystr \<Rightarrow> exn + int" where
  "py_int s =
     (let t = dropWhile ascii_space (map to_ascii s);
          neg = (case t of [] \<Rightarrow> False | c # r \<Rightarrow> c = 45);
          t1 = (case t of [] \<Rightarrow> [] | c # r \<Rightarrow> if c = 43 \<or> c = 45 then r else t);
          body = takeWhile digit_or_underscore t1;
          rest = dropWhile digit_or_underscore t1;
          ds = filter is_digit body
      in if body = [] \<or> hd body = 95 \<or> last body = 95 \<or> double_underscore body
            \<or> \<not> list_all ascii_space rest
         then Inl (ValueError invalid_literal)
         else if max_str_digits < length ds then Inl (ValueError exceeds_limit)
         else Inr (if neg then - digits_value ds else digits_value ds))"

section \<open>The IP validator\<close>

text \<open>\<open>ip.split('.')\<close>: one part more than there are dots.\<close>

fun split_dot :: "pystr \<Rightarrow> pystr list" where
  "split_dot [] = [[]]"
| "split_dot (c # cs) =
     (if c = 46 then [] # split_dot cs
      else (case split_dot cs of [] \<Rightarrow> [[c]] | p # ps \<Rightarrow> (c # p) # ps))"

text \<open>
  \<open>all(0 <= int(part) <= 255 for part in parts)\<close>: the generator is consumed from the
  left, stops at the first part out of range, and an unparsable part raises.
\<close>

fun all_octets :: "pystr list \<Rightarrow> exn + bool" where
  "all_octets [] = Inr True"
| "all_octets (part # parts) =
     (case py_int part of
        Inl e \<Rightarrow> Inl e
      | Inr n \<Rightarrow> if 0 \<le> n \<and> n \<le> 255 then all_octets parts else Inr False)"

definition is_valid_ip :: "pystr \<Rightarrow> exn + bool" where
  "is_valid_ip ip =
     (let parts = split_dot ip
      in if length parts \<noteq> 4 then Inr False
         else (case all_octets parts of
                 Inl (ValueError m) \<Rightarrow> Inr False
               | Inl e \<Rightarrow> Inl e
               | Inr b \<Rightarrow> Inr b))"

subsection \<open>The validator as the specification words it\<close>

text \<open>The number that a row of decimal digits writes, the last digit counting ones.\<close>

fun lsd_number :: "nat list \<Rightarrow> nat" where
  "lsd_number [] = 0"
| "lsd_number (d # ds) = d + 10 * lsd_number ds"

definition decimal_number :: "nat list \<Rightarrow> nat" where
  "decimal_number ds = lsd_number (rev ds)"

text \<open>
  The claim read plainly: a segment is one or more of the digits 0 to 9 and nothing
  else, and the number they write is at most 255; an address is four such segments
  with a dot between neighbours.
\<close>

definition plain_octet :: "pystr \<Rightarrow> bool" where
  "plain_octet p =
     (p \<noteq> [] \<and> list_all (\<lambda>c. 48 \<le> c \<and> c \<le> 57) p
      \<and> decimal_number (map (\<lambda>c. c - 48) p) \<le> 255)"

definition plain_valid_ip :: "pystr \<Rightarrow> bool" where
  "plain_valid_ip s =
     (\<exists>a b c d. s = a @ [46] @ b @ [46] @ c @ [46] @ d
        \<and> plain_octet a \<and> plain_octet b \<and> plain_octet c \<and> plain_octet d)"

text \<open>
  What the integer rule of the language admits beyond that. A blank is an ASCII
  whitespace character or a Unicode space outside ASCII; a digit is a decimal digit of
  any script, with its value.
\<close>

definition int_blank :: "nat \<Rightarrow> bool" where
  "int_blank c = (c \<in> set [9, 10, 11, 12, 13, 32, 133, 160, 5760,
     8192, 8193, 8194, 8195, 8196, 8197, 8198, 8199, 8200, 8201, 8202,
     8232, 8233, 8239, 8287, 12288])"

definition digit_of :: "nat \<Rightarrow> nat option" where
  "digit_of c = unicode_decimal decimal_zeros c"

text \<open>Digits in groups, one underscore between two neighbouring groups.\<close>

definition group_char :: "nat \<Rightarrow> bool" where
  "group_char c = (digit_of c \<noteq> None \<or> c = 95)"

fun digit_groups :: "pystr \<Rightarrow> bool" where
  "digit_groups [] = False"
| "digit_groups [c] = (digit_of c \<noteq> None)"
| "digit_groups (c # u # cs) =
     (digit_of c \<noteq> None \<and> (if u = 95 then digit_groups cs else digit_groups (u # cs)))"

definition digits_of :: "pystr \<Rightarrow> nat list" where
  "digits_of body = List.map_filter digit_of body"

text \<open>
  An integer literal with its value: blanks, an optional sign, the digit groups with at
  most 4300 digits in all, blanks.
\<close>

definition int_literal :: "pystr \<Rightarrow> int \<Rightarrow> bool" where
  "int_literal p n =
     (\<exists>lead sign body trail.
        p = lead @ sign @ body @ trail
      \<and> list_all int_blank lead \<and> list_all int_blank trail
      \<and> (sign = [] \<or> sign = [43] \<or> sign = [45])
      \<and> digit_groups body
      \<and> length (digits_of body) \<le> 4300
      \<and> n = (if sign = [45] then - int (decimal_number (digits_of body))
             else int (decimal_number (digits_of body))))"

definition lenient_octet :: "pystr \<Rightarrow> bool" where
  "lenient_octet p = (\<exists>n. int_literal p n \<and> 0 \<le> n \<and> n \<le> 255)"

definition lenient_valid_ip :: "pystr \<Rightarrow> bool" where
  "lenient_valid_ip s =
     (\<exists>a b c d. s = a @ [46] @ b @ [46] @ c @ [46] @ d
        \<and> lenient_octet a \<and> lenient_octet b \<and> lenient_octet c \<and> lenient_octet d)"

text \<open>The inverse of the split: the parts with a dot between neighbours.\<close>

fun join_dot :: "pystr list \<Rightarrow> pystr" where
  "join_dot [] = []"
| "join_dot [p] = p"
| "join_dot (p # q # ps) = p @ 46 # join_dot (q # ps)"

section \<open>The literals of the program\<close>

text \<open>The lookup endpoint, 'http://ip-api.com/json/'\<close>

definition geo_url :: pystr where
  "geo_url = [104, 116, 116, 112, 58, 47, 47, 105, 112, 45, 97, 112, 105, 46, 99, 111, 109,
     47, 106, 115, 111, 110, 47]"

text \<open>The self-IP endpoint, 'https://api.ipify.org?format=json'\<close>

definition ipify_url :: pystr where
  "ipify_url = [104, 116, 116, 112, 115, 58, 47, 47, 97, 112, 105, 46, 105, 112, 105, 102,
     121, 46, 111, 114, 103, 63, 102, 111, 114, 109, 97, 116, 61, 106, 115, 111, 110]"

text \<open>'status'\<close>

definition k_status :: pystr where
  "k_status = [115, 116, 97, 116, 117, 115]"

text \<open>'fail'\<close>

definition v_fail :: pystr where
  "v_fail = [102, 97, 105, 108]"

text \<open>'message'\<close>

definition k_message :: pystr where
  "k_message = [109, 101, 115, 115, 97, 103, 101]"

text \<open>'Unknown error'\<close>

definition unknown_error :: pystr where
  "unknown_error = [85, 110, 107, 110, 111, 119, 110, 32, 101, 114, 114, 111, 114]"

text \<open>'query'\<close>

definition k_query :: pystr where
  "k_query = [113, 117, 101, 114, 121]"

text \<open>'isp'\<close>

definition k_isp :: pystr where
  "k_isp = [105, 115, 112]"

text \<open>'country'\<close>

definition k_country :: pystr where
  "k_country = [99, 111, 117, 110, 116, 114, 121]"

text \<open>'regionName'\<close>

definition k_regionName :: pystr where
  "k_regionName = [114, 101, 103, 105, 111, 110, 78, 97, 109, 101]"

text \<open>'city'\<close>

definition k_city :: pystr where
  "k_city = [99, 105, 116, 121]"

text \<open>'zip'\<close>

definition k_zip :: pystr where
  "k_zip = [122, 105, 112]"

text \<open>'lat'\<close>

definition k_lat :: pystr where
  "k_lat = [108, 97, 116]"

text \<open>'lon'\<close>

definition k_lon :: pystr where
  "k_lon = [108, 111, 110]"

text \<open>'ip'\<close>

definition k_ip :: pystr where
  "k_ip = [105, 112]"

text \<open>'IP'\<close>

definition label_ip :: pystr where
  "label_ip = [73, 80]"

text \<open>The label of the provider name (Russian)\<close>

definition label_isp :: pystr where
  "label_isp = [1048, 1085, 1090, 1077, 1088, 1085, 1077, 1090, 32, 1087, 1088, 1086, 1074,
     1072, 1081, 1076, 1077, 1088]"

text \<open>The label of the country (Russian)\<close>

definition label_country :: pystr where
  "label_country = [1057, 1090, 1088, 1072, 1085, 1072]"

text \<open>The label of the region (Russian)\<close>

definition label_region :: pystr where
  "label_region = [1056, 1077, 1075, 1080, 1086, 1085]"

text \<open>The label of the city (Russian)\<close>

definition label_city :: pystr where
  "label_city = [1043, 1086, 1088, 1086, 1076]"

text \<open>The label of the postal code (Russian)\<close>

definition label_zip :: pystr where
  "label_zip = [1048, 1085, 1076, 1077, 1082, 1089]"

text \<open>The label of the latitude (Russian)\<close>

definition label_lat :: pystr where
  "label_lat = [1064, 1080, 1088, 1086, 1090, 1072]"

text \<open>The label of the longitude (Russian)\<close>

definition label_lon :: pystr where
  "label_lon = [1044, 1086, 1083, 1075, 1086, 1090, 1072]"

text \<open>'Unknown location'\<close>

definition unknown_location :: pystr where
  "unknown_location = [85, 110, 107, 110, 111, 119, 110, 32, 108, 111, 99, 97, 116, 105,
     111, 110]"

text \<open>'ip_map_'\<close>

definition ip_map_prefix :: pystr where
  "ip_map_prefix = [105, 112, 95, 109, 97, 112, 95]"

text \<open>'.html'\<close>

definition html_suffix :: pystr where
  "html_suffix = [46, 104, 116, 109, 108]"

text \<open>The prefix of a network error (Russian), ending in ': '\<close>

definition network_error_prefix :: pystr where
  "network_error_prefix = [1054, 1096, 1080, 1073, 1082, 1072, 32, 1089, 1077, 1090, 1080,
     58, 32]"

text \<open>The prefix of any other error (Russian), ending in ': '\<close>

definition generic_error_prefix :: pystr where
  "generic_error_prefix = [1055, 1088, 1086, 1080, 1079, 1086, 1096, 1083, 1072, 32, 1086,
     1096, 1080, 1073, 1082, 1072, 58, 32]"

text \<open>The caption of the 'my IP' button (Russian)\<close>

definition button_my_ip :: pystr where
  "button_my_ip = [1052, 1086, 1081, 32, 73, 80]"

text \<open>The caption of the 'help' button (Russian)\<close>

definition button_help :: pystr where
  "button_help = [1055, 1086, 1084, 1086, 1097, 1100]"

text \<open>The greeting sent on /start (Russian, HTML)\<close>

definition greeting_text :: pystr where
  "greeting_text = [60, 98, 62, 1055, 1088, 1080, 1074, 1077, 1090, 33, 60, 47, 98, 62, 32,
     1071, 32, 1073, 1086, 1090, 32, 1076, 1083, 1103, 32, 1087, 1086, 1083, 1091, 1095,
     1077, 1085, 1080, 1103, 32, 1080, 1085, 1092, 1086, 1088, 1084, 1072, 1094, 1080, 1080,
     32, 1086, 1073, 32, 73, 80, 45, 1072, 1076, 1088, 1077, 1089, 1072, 1093, 46, 10, 1055,
     1088, 1086, 1089, 1090, 1086, 32, 1086, 1090, 1087, 1088, 1072, 1074, 1100, 32, 1084,
     1085, 1077, 32, 1083, 1102, 1073, 1086, 1081, 32, 73, 80, 45, 1072, 1076, 1088, 1077,
     1089, 32, 1080, 1083, 1080, 32, 1085, 1072, 1078, 1084, 1080, 32, 1082, 1085, 1086,
     1087, 1082, 1091, 32, 1085, 1080, 1078, 1077, 46]"

text \<open>The placeholder of the input field (Russian)\<close>

definition placeholder_text :: pystr where
  "placeholder_text = [1042, 1099, 1073, 1077, 1088, 1080, 1090, 1077, 32, 1076, 1077, 1081,
     1089, 1090, 1074, 1080, 1077, 46, 46, 46]"

text \<open>The word 'help' in Russian, lower case\<close>

definition help_word :: pystr where
  "help_word = [1087, 1086, 1084, 1086, 1097, 1100]"

text \<open>The usage instructions (Russian, HTML)\<close>

definition help_text :: pystr where
  "help_text = [60, 98, 62, 128204, 32, 1050, 1072, 1082, 32, 1087, 1086, 1083, 1100, 1079,
     1086, 1074, 1072, 1090, 1100, 1089, 1103, 32, 1073, 1086, 1090, 1086, 1084, 58, 60, 47,
     98, 62, 10, 10, 49, 46, 32, 1054, 1090, 1087, 1088, 1072, 1074, 1100, 1090, 1077, 32,
     1084, 1085, 1077, 32, 60, 105, 62, 73, 80, 118, 52, 45, 1072, 1076, 1088, 1077, 1089,
     60, 47, 105, 62, 32, 40, 1085, 1072, 1087, 1088, 1080, 1084, 1077, 1088, 44, 32, 56,
     46, 56, 46, 56, 46, 56, 41, 10, 50, 46, 32, 1048, 1083, 1080, 32, 1085, 1072, 1078,
     1084, 1080, 1090, 1077, 32, 1082, 1085, 1086, 1087, 1082, 1091, 32, 60, 98, 62, 39,
     1052, 1086, 1081, 32, 73, 80, 39, 60, 47, 98, 62, 10, 10, 1071, 32, 1087, 1086, 1082,
     1072, 1078, 1091, 32, 1080, 1085, 1092, 1086, 1088, 1084, 1072, 1094, 1080, 1102, 32,
     1086, 32, 1084, 1077, 1089, 1090, 1086, 1087, 1086, 1083, 1086, 1078, 1077, 1085, 1080,
     1080, 32, 1080, 32, 1087, 1088, 1080, 1096, 1083, 1102, 32, 1082, 1072, 1088, 1090,
     1091, 46, 10, 1050, 1072, 1088, 1090, 1091, 32, 1084, 1086, 1078, 1077, 1096, 1100, 32,
     1086, 1090, 1082, 1088, 1099, 1090, 1100, 32, 1089, 32, 1090, 1077, 1083, 1077, 1092,
     1086, 1085, 1072, 32, 1080, 1083, 1080, 32, 1055, 1050, 32, 1074, 32, 1083, 1102, 1073,
     1086, 1084, 32, 1073, 1088, 1072, 1091, 1079, 1077, 1088, 1077]"

text \<open>'my ip' in Russian, lower case\<close>

definition my_ip_word :: pystr where
  "my_ip_word = [1084, 1086, 1081, 32, 105, 112]"

text \<open>'Could not determine your IP address.' (Russian)\<close>

definition cannot_determine_text :: pystr where
  "cannot_determine_text = [1053, 1077, 32, 1091, 1076, 1072, 1083, 1086, 1089, 1100, 32,
     1086, 1087, 1088, 1077, 1076, 1077, 1083, 1080, 1090, 1100, 32, 1074, 1072, 1096, 32,
     73, 80, 45, 1072, 1076, 1088, 1077, 1089, 46]"

text \<open>'Could not determine your IP automatically. Please enter the IP address manually.' (Russian)\<close>

definition manual_entry_text :: pystr where
  "manual_entry_text = [1053, 1077, 32, 1091, 1076, 1072, 1083, 1086, 1089, 1100, 32, 1086,
     1087, 1088, 1077, 1076, 1077, 1083, 1080, 1090, 1100, 32, 1074, 1072, 1096, 32, 73, 80,
     32, 1072, 1074, 1090, 1086, 1084, 1072, 1090, 1080, 1095, 1077, 1089, 1082, 1080, 46,
     32, 1055, 1086, 1078, 1072, 1083, 1091, 1081, 1089, 1090, 1072, 44, 32, 1074, 1074,
     1077, 1076, 1080, 1090, 1077, 32, 73, 80, 45, 1072, 1076, 1088, 1077, 1089, 32, 1074,
     1088, 1091, 1095, 1085, 1091, 1102, 46]"

text \<open>'typing'\<close>

definition typing :: pystr where
  "typing = [116, 121, 112, 105, 110, 103]"

text \<open>A cross mark and a blank\<close>

definition cross_prefix :: pystr where
  "cross_prefix = [10060, 32]"

text \<open>The heading of the formatted record (Russian, HTML), then two newlines\<close>

definition info_header :: pystr where
  "info_header = [60, 98, 62, 128269, 32, 1048, 1085, 1092, 1086, 1088, 1084, 1072, 1094,
     1080, 1103, 32, 1086, 1073, 32, 73, 80, 58, 60, 47, 98, 62, 10, 10]"

text \<open>A newline\<close>

definition newline :: pystr where
  "newline = [10]"

text \<open>'<b>'\<close>

definition bold_open :: pystr where
  "bold_open = [60, 98, 62]"

text \<open>':</b> <code>'\<close>

definition label_close :: pystr where
  "label_close = [58, 60, 47, 98, 62, 32, 60, 99, 111, 100, 101, 62]"

text \<open>'</code>'\<close>

definition code_close :: pystr where
  "code_close = [60, 47, 99, 111, 100, 101, 62]"

text \<open>The caption of the attached map (Russian)\<close>

definition map_caption :: pystr where
  "map_caption = [128205, 32, 1050, 1072, 1088, 1090, 1072, 32, 1084, 1077, 1089, 1090,
     1086, 1087, 1086, 1083, 1086, 1078, 1077, 1085, 1080, 1103]"

text \<open>Two newlines and the note that no map could be created (Russian, HTML)\<close>

definition map_warning :: pystr where
  "map_warning = [10, 10, 9888, 32, 60, 105, 62, 1053, 1077, 32, 1091, 1076, 1072, 1083,
     1086, 1089, 1100, 32, 1089, 1086, 1079, 1076, 1072, 1090, 1100, 32, 1082, 1072, 1088,
     1090, 1091, 32, 1076, 1083, 1103, 32, 1101, 1090, 1086, 1075, 1086, 32, 73, 80, 60, 47,
     105, 62]"

section \<open>JSON values\<close>

text \<open>
  What \<open>Response.json()\<close> returns. A float is a finite value, an infinity (the flag
  tells the negative one) or not-a-number: \<open>json.loads\<close> reads all of them. An object is
  the list of its items in insertion order, as a Python \<open>dict\<close> keeps them.
\<close>

datatype pyfloat = Finite real | Infinity bool | NaN

datatype json =
    JNull
  | JBool bool
  | JInt int
  | JFloat pyfloat
  | JStr pystr
  | JArr "json list"
  | JObj "(pystr \<times> json) list"

type_synonym pydict = "(pystr \<times> json) list"

text \<open>The truth value Python gives a value in \<open>if v:\<close> and \<open>a and b\<close>.\<close>

fun truthy :: "json \<Rightarrow> bool" where
  "truthy JNull = False"
| "truthy (JBool b) = b"
| "truthy (JInt n) = (n \<noteq> 0)"
| "truthy (JFloat f) = (f \<noteq> Finite 0)"
| "truthy (JStr s) = (s \<noteq> [])"
| "truthy (JArr xs) = (xs \<noteq> [])"
| "truthy (JObj kvs) = (kvs \<noteq> [])"

text \<open>\<open>d.get(key, default)\<close> and \<open>d[key]\<close> on a dict.\<close>

definition dict_get :: "pydict \<Rightarrow> pystr \<Rightarrow> json \<Rightarrow> json" where
  "dict_get d k dflt = (case map_of d k of None \<Rightarrow> dflt | Some v \<Rightarrow> v)"

definition dict_subscript :: "pydict \<Rightarrow> pystr \<Rightarrow> exn + json" where
  "dict_subscript d k =
     (case map_of d k of None \<Rightarrow> Inl (KeyError ([39] @ k @ [39])) | Some v \<Rightarrow> Inr v)"

fun type_name :: "json \<Rightarrow> pystr" where
  "type_name JNull = [78, 111, 110, 101, 84, 121, 112, 101]"
| "type_name (JBool b) = [98, 111, 111, 108]"
| "type_name (JInt n) = [105, 110, 116]"
| "type_name (JFloat f) = [102, 108, 111, 97, 116]"
| "type_name (JStr s) = [115, 116, 114]"
| "type_name (JArr xs) = [108, 105, 115, 116]"
| "type_name (JObj kvs) = [100, 105, 99, 116]"

text \<open>What \<open>v.get(...)\<close> raises when \<open>v\<close> is not a dict.\<close>

definition no_attribute_get :: "json \<Rightarrow> exn" where
  "no_attribute_get v = AttributeError ([39] @ type_name v @ [39] @
     [32, 111, 98, 106, 101, 99, 116, 32, 104, 97, 115, 32, 110, 111, 32, 97, 116, 116,
      114, 105, 98, 117, 116, 101, 32, 39, 103, 101, 116, 39])"

section \<open>The chat transport, the outside world and the state\<close>

record message =
  msg_text :: "pystr option"
  msg_chat_id :: int

text \<open>
  A reply keyboard (button captions, \<open>resize_keyboard\<close>, \<open>input_field_placeholder\<close>)
  or the removal of the keyboard.
\<close>

datatype markup = ReplyKeyboardMarkup "pystr list" bool pystr | ReplyKeyboardRemove

text \<open>
  The outbound calls in the order the program makes them: an HTTP GET (URL, timeout),
  a chat action, a text message (chat, text, \<open>reply_markup\<close>) and a document
  (chat, path of the file, caption).
\<close>

datatype event =
    HttpGet pystr nat
  | SendChatAction int pystr
  | Answer int pystr "markup option"
  | AnswerDocument int pystr pystr

text \<open>The files of the working directory and the calls made so far.\<close>

record world =
  files :: "pystr set"
  trace :: "event list"

text \<open>
  What the program does not decide. \<open>http_get_json url timeout\<close> is the outcome of
  \<open>requests.get(url, timeout=timeout).json()\<close>; \<open>folium_marker lat lon popup\<close> is the
  exception, if any, that building the map and its marker raises, and \<open>save_map\<close> the one
  that writing the file raises (a failed write leaves no file); \<open>telegram\<close> is the
  error, if any, with which the chat
  transport refuses a call. \<open>lower\<close> is \<open>str.lower\<close>, \<open>command_start\<close> the library's
  filter \<open>Command("start")\<close>, and \<open>str_value\<close> is \<open>str()\<close> on the values that are
  neither a string nor \<open>None\<close>.
\<close>

record env =
  http_get_json :: "pystr \<Rightarrow> nat \<Rightarrow> exn + json"
  folium_marker :: "json \<Rightarrow> json \<Rightarrow> json \<Rightarrow> exn option"
  save_map :: "pystr \<Rightarrow> exn option"
  telegram :: "event \<Rightarrow> pystr option"
  lower :: "pystr \<Rightarrow> pystr"
  command_start :: "message \<Rightarrow> bool"
  str_value :: "json \<Rightarrow> pystr"

text \<open>\<open>str(v)\<close>, as an f-string formats a value.\<close>

definition py_str :: "env \<Rightarrow> json \<Rightarrow> pystr" where
  "py_str env v =
     (case v of JStr s \<Rightarrow> s | JNull \<Rightarrow> [78, 111, 110, 101] | _ \<Rightarrow> str_value env v)"

definition emit :: "event \<Rightarrow> world \<Rightarrow> world" where
  "emit e w = w\<lparr>trace := trace w @ [e]\<rparr>"

text \<open>An awaited call of the chat transport: it is made, and it may raise.\<close>

definition send :: "env \<Rightarrow> event \<Rightarrow> world \<Rightarrow> world \<times> (exn + unit)" where
  "send env e w =
     (emit e w, case telegram env e of None \<Rightarrow> Inr () | Some m \<Rightarrow> Inl (TelegramAPIError m))"

section \<open>The geo lookup client\<close>

text \<open>The dict \<open>data\<close>, in the order its items are written.\<close>

definition build_data :: "pydict \<Rightarrow> pydict" where
  "build_data response =
     [(label_ip, dict_get response k_query JNull),
      (label_isp, dict_get response k_isp JNull),
      (label_country, dict_get response k_country JNull),
      (label_region, dict_get response k_regionName JNull),
      (label_city, dict_get response k_city JNull),
      (label_zip, dict_get response k_zip JNull),
      (label_lat, dict_get response k_lat JNull),
      (label_lon, dict_get response k_lon JNull)]"

text \<open>
  The body of the \<open>try\<close> of \<open>get_ip_info\<close>. The first use of the response is
  \<open>response.get\<close>, which raises when the response is not a dict.
\<close>

definition get_ip_info_try ::
  "env \<Rightarrow> json \<Rightarrow> world \<Rightarrow> world \<times> (exn + (pydict option \<times> json))" where
  "get_ip_info_try env ip w =
     (let url = geo_url @ py_str env ip;
          w1 = emit (HttpGet url 10) w
      in case http_get_json env url 10 of
           Inl e \<Rightarrow> (w1, Inl e)
         | Inr (JObj response) \<Rightarrow>
             if dict_get response k_status JNull = JStr v_fail
             then (w1, Inr (None, dict_get response k_message (JStr unknown_error)))
             else
               let data = build_data response
               in if truthy (dict_get response k_lat JNull)
                     \<and> truthy (dict_get response k_lon JNull)
                  then
                    (case folium_marker env (dict_get response k_lat JNull)
                            (dict_get response k_lon JNull)
                            (dict_get response k_city (JStr unknown_location)) of
                       Some e \<Rightarrow> (w1, Inl e)
                     | None \<Rightarrow>
                         (case dict_subscript response k_query of
                            Inl e \<Rightarrow> (w1, Inl e)
                          | Inr q \<Rightarrow>
                              let map_filename = ip_map_prefix @ py_str env q @ html_suffix
                              in (case save_map env map_filename of
                                    Some e \<Rightarrow> (w1, Inl e)
                                  | None \<Rightarrow>
                                      (w1\<lparr>files := insert map_filename (files w1)\<rparr>,
                                       Inr (Some data, JStr map_filename)))))
                  else (w1, Inr (Some data, JNull))
         | Inr v \<Rightarrow> (w1, Inl (no_attribute_get v)))"

text \<open>The two \<open>except\<close> clauses, the narrower one first.\<close>

definition get_ip_info :: "env \<Rightarrow> json \<Rightarrow> world \<Rightarrow> world \<times> (pydict option \<times> json)" where
  "get_ip_info env ip w =
     (case get_ip_info_try env ip w of
        (w1, Inr r) \<Rightarrow> (w1, r)
      | (w1, Inl e) \<Rightarrow>
          if is_RequestException e
          then (w1, (None, JStr (network_error_prefix @ exn_str e)))
          else (w1, (None, JStr (generic_error_prefix @ exn_str e))))"

section \<open>The conversation handlers\<close>

definition cmd_start :: "env \<Rightarrow> message \<Rightarrow> world \<Rightarrow> world \<times> (exn + unit)" where
  "cmd_start env m w =
     send env (Answer (msg_chat_id m) greeting_text
       (Some (ReplyKeyboardMarkup [button_my_ip, button_help] True placeholder_text))) w"

definition cmd_help :: "env \<Rightarrow> message \<Rightarrow> world \<Rightarrow> world \<times> (exn + unit)" where
  "cmd_help env m w =
     send env (Answer (msg_chat_id m) help_text (Some ReplyKeyboardRemove)) w"

text \<open>One line of the formatted record, and the lines joined by newlines.\<close>

definition format_item :: "env \<Rightarrow> pystr \<times> json \<Rightarrow> pystr" where
  "format_item env kv = bold_open @ fst kv @ label_close @ py_str env (snd kv) @ code_close"

fun join_lines :: "pystr list \<Rightarrow> pystr" where
  "join_lines [] = []"
| "join_lines [l] = l"
| "join_lines (l # l' # ls) = l @ newline @ join_lines (l' # ls)"

definition info_text :: "env \<Rightarrow> pydict \<Rightarrow> pystr" where
  "info_text env data = info_header @ join_lines (map (format_item env) data)"

text \<open>
  \<open>if os.path.exists(map_filename): os.remove(map_filename)\<close>; the removal of a file
  that exists is taken to succeed.
\<close>

definition remove_if_exists :: "pystr \<Rightarrow> world \<Rightarrow> world" where
  "remove_if_exists f w = (if f \<in> files w then w\<lparr>files := files w - {f}\<rparr> else w)"

text \<open>
  The \<open>try\<close> block that sends the text and then the document, and its \<open>finally\<close>,
  which runs on both ways out.
\<close>

definition send_info_and_map ::
  "env \<Rightarrow> message \<Rightarrow> pystr \<Rightarrow> pystr \<Rightarrow> world \<Rightarrow> world \<times> (exn + unit)" where
  "send_info_and_map env m txt f w =
     (case send env (Answer (msg_chat_id m) txt None) w of
        (w1, Inl e) \<Rightarrow> (w1, Inl e)
      | (w1, Inr u) \<Rightarrow> send env (AnswerDocument (msg_chat_id m) f map_caption) w1)"

text \<open>
  \<open>get_ip_info\<close> returns, next to a record, \<open>None\<close> or a file name, so the branch of a
  true value that is not a string is never taken; the model raises there.
\<close>

definition process_ip_request ::
  "env \<Rightarrow> message \<Rightarrow> json \<Rightarrow> world \<Rightarrow> world \<times> (exn + unit)" where
  "process_ip_request env m ip w =
     (case send env (SendChatAction (msg_chat_id m) typing) w of
        (w1, Inl e) \<Rightarrow> (w1, Inl e)
      | (w1, Inr u) \<Rightarrow>
          (case get_ip_info env ip w1 of
             (w2, None, map_filename) \<Rightarrow>
               send env (Answer (msg_chat_id m) (cross_prefix @ py_str env map_filename) None) w2
           | (w2, Some data, map_filename) \<Rightarrow>
               if truthy map_filename
               then (case map_filename of
                       JStr f \<Rightarrow>
                         (case send_info_and_map env m (info_text env data) f w2 of
                            (w3, r) \<Rightarrow> (remove_if_exists f w3, r))
                     | _ \<Rightarrow> (w2, Inl (TypeError (type_name map_filename))))
               else send env
                      (Answer (msg_chat_id m) (info_text env data @ map_warning) None) w2))"

text \<open>The body of the \<open>try\<close> of \<open>cmd_my_ip\<close>, and the handler with its \<open>except\<close>.\<close>

definition cmd_my_ip_try :: "env \<Rightarrow> message \<Rightarrow> world \<Rightarrow> world \<times> (exn + unit)" where
  "cmd_my_ip_try env m w =
     (let w1 = emit (HttpGet ipify_url 5) w
      in case http_get_json env ipify_url 5 of
           Inl e \<Rightarrow> (w1, Inl e)
         | Inr (JObj ip_response) \<Rightarrow>
             let user_ip = dict_get ip_response k_ip JNull
             in if truthy user_ip
                then process_ip_request env m user_ip w1
                else send env (Answer (msg_chat_id m) cannot_determine_text None) w1
         | Inr v \<Rightarrow> (w1, Inl (no_attribute_get v)))"

definition cmd_my_ip :: "env \<Rightarrow> message \<Rightarrow> world \<Rightarrow> world \<times> (exn + unit)" where
  "cmd_my_ip env m w =
     (case cmd_my_ip_try env m w of
        (w1, Inl e) \<Rightarrow>
          if is_RequestException e
          then send env (Answer (msg_chat_id m) manual_entry_text None) w1
          else (w1, Inl e)
      | (w1, Inr u) \<Rightarrow> (w1, Inr u))"

definition process_ip :: "env \<Rightarrow> message \<Rightarrow> world \<Rightarrow> world \<times> (exn + unit)" where
  "process_ip env m w =
     (case msg_text m of
        Some t \<Rightarrow> process_ip_request env m (JStr (strip t)) w
      | None \<Rightarrow> (w, Inl (AttributeError (type_name JNull))))"

subsection \<open>The filters and the dispatcher\<close>

text \<open>\<open>message.text and message.text.lower() == word\<close>\<close>

definition text_is :: "env \<Rightarrow> pystr \<Rightarrow> message \<Rightarrow> bool" where
  "text_is env word m =
     (case msg_text m of None \<Rightarrow> False | Some t \<Rightarrow> t \<noteq> [] \<and> lower env t = word)"

text \<open>\<open>message.text and is_valid_ip(message.text)\<close>\<close>

definition text_is_ip :: "message \<Rightarrow> exn + bool" where
  "text_is_ip m =
     (case msg_text m of
        None \<Rightarrow> Inr False
      | Some t \<Rightarrow> if t = [] then Inr False else is_valid_ip t)"

text \<open>
  The dispatcher of the library tries the handlers in the order of their registration
  and calls the first whose filter passes; a message that passes none is left alone.
\<close>

definition handle_message :: "env \<Rightarrow> message \<Rightarrow> world \<Rightarrow> world \<times> (exn + unit)" where
  "handle_message env m w =
     (if command_start env m then cmd_start env m w
      else if text_is env help_word m then cmd_help env m w
      else if text_is env my_ip_word m then cmd_my_ip env m w
      else (case text_is_ip m of
              Inl e \<Rightarrow> (w, Inl e)
            | Inr True \<Rightarrow> process_ip env m w
            | Inr False \<Rightarrow> (w, Inr ())))"

section \<open>Example inputs\<close>

text \<open>
  Concrete environments on which the theorems below are instantiated. The example
  \<open>lower\<close> maps the capitals of the Latin and of the basic Russian alphabet; the example
  \<open>str\<close> prints the four floats of the examples as the language does ('37.0', '-122.0',
  '0.0', '10.0') and every other value as the empty string.
\<close>

definition lower_basic :: "pystr \<Rightarrow> pystr" where
  "lower_basic s =
     map (\<lambda>c. if (65 \<le> c \<and> c \<le> 90) \<or> (1040 \<le> c \<and> c \<le> 1071) then c + 32 else c) s"

definition str_basic :: "json \<Rightarrow> pystr" where
  "str_basic v =
     (if v = JFloat (Finite 37) then [51, 55, 46, 48]
      else if v = JFloat (Finite (- 122)) then [45, 49, 50, 50, 46, 48]
      else if v = JFloat (Finite 0) then [48, 46, 48]
      else if v = JFloat (Finite 10) then [49, 48, 46, 48]
      else [])"

text \<open>'/start'\<close>

definition slash_start :: pystr where
  "slash_start = [47, 115, 116, 97, 114, 116]"

definition example_env :: "(pystr \<Rightarrow> exn + json) \<Rightarrow> (event \<Rightarrow> pystr option) \<Rightarrow> env" where
  "example_env http tg =
     \<lparr>http_get_json = (\<lambda>url timeout. http url),
      folium_marker = (\<lambda>lat lon popup. None),
      save_map = (\<lambda>f. None),
      telegram = tg,
      lower = lower_basic,
      command_start = (\<lambda>m. msg_text m = Some slash_start),
      str_value = str_basic\<rparr>"

text \<open>A chat transport that accepts every call.\<close>

definition quiet :: "event \<Rightarrow> pystr option" where
  "quiet e = None"

text \<open>'timed out', the text of an error, and the text 'not an ip'.\<close>

definition timed_out :: pystr where
  "timed_out = [116, 105, 109, 101, 100, 32, 111, 117, 116]"

definition not_an_ip :: pystr where
  "not_an_ip = [110, 111, 116, 32, 97, 110, 32, 105, 112]"

text \<open>A chat transport that refuses every document with 'timed out'.\<close>

definition no_documents :: "event \<Rightarrow> pystr option" where
  "no_documents e = (case e of AnswerDocument c f cap \<Rightarrow> Some timed_out | _ \<Rightarrow> None)"

text \<open>
  '1_0.0.0.0', ' 1 . 2 .3.4' with a newline at its end, and 8.8.8.8 in Arabic-Indic
  digits.
\<close>

definition underscored_ip :: pystr where
  "underscored_ip = [49, 95, 48, 46, 48, 46, 48, 46, 48]"

definition padded_ip :: pystr where
  "padded_ip = [32, 49, 32, 46, 32, 50, 32, 46, 51, 46, 52, 10]"

definition arabic_ip :: pystr where
  "arabic_ip = [1640, 46, 1640, 46, 1640, 46, 1640]"

text \<open>'8.8.8.8', '1.1.1.1', 'success' and 'invalid query'\<close>

definition ip8 :: pystr where
  "ip8 = [56, 46, 56, 46, 56, 46, 56]"

definition ip1 :: pystr where
  "ip1 = [49, 46, 49, 46, 49, 46, 49]"

definition v_success :: pystr where
  "v_success = [115, 117, 99, 99, 101, 115, 115]"

definition invalid_query :: pystr where
  "invalid_query = [105, 110, 118, 97, 108, 105, 100, 32, 113, 117, 101, 114, 121]"

text \<open>A successful answer for 8.8.8.8 at latitude 37.0 and longitude -122.0.\<close>

definition fields_california :: pydict where
  "fields_california =
     [(k_status, JStr v_success), (k_query, JStr ip8),
      (k_lat, JFloat (Finite 37)), (k_lon, JFloat (Finite (- 122)))]"

text \<open>The same answer at latitude 0.0 and longitude 10.0.\<close>

definition fields_equator :: pydict where
  "fields_equator =
     [(k_status, JStr v_success), (k_query, JStr ip8),
      (k_lat, JFloat (Finite 0)), (k_lon, JFloat (Finite 10))]"

text \<open>A successful answer without coordinates.\<close>

definition fields_nowhere :: pydict where
  "fields_nowhere = [(k_status, JStr v_success), (k_query, JStr ip8)]"

text \<open>A successful answer whose \<open>query\<close> is 1.1.1.1.\<close>

definition fields_other_query :: pydict where
  "fields_other_query =
     [(k_status, JStr v_success), (k_query, JStr ip1),
      (k_lat, JFloat (Finite 37)), (k_lon, JFloat (Finite (- 122)))]"



text \<open>
  The web as the examples see it: the self-IP service gives \<open>self_ip\<close>, and every other
  URL gives \<open>geo\<close>.
\<close>

definition web :: "exn + json \<Rightarrow> exn + json \<Rightarrow> pystr \<Rightarrow> exn + json" where
  "web self_ip geo url = (if url = ipify_url then self_ip else geo)"

text \<open>
  The text that the program sends for the answer with coordinates: the heading and the
  eight lines, with 37.0 and -122.0 as the language prints them.
\<close>

definition reply_california :: pystr where
  "reply_california = [60, 98, 62, 128269, 32, 1048, 1085, 1092, 1086, 1088, 1084, 1072,
     1094, 1080, 1103, 32, 1086, 1073, 32, 73, 80, 58, 60, 47, 98, 62, 10, 10, 60, 98, 62,
     73, 80, 58, 60, 47, 98, 62, 32, 60, 99, 111, 100, 101, 62, 56, 46, 56, 46, 56, 46, 56,
     60, 47, 99, 111, 100, 101, 62, 10, 60, 98, 62, 1048, 1085, 1090, 1077, 1088, 1085,
     1077, 1090, 32, 1087, 1088, 1086, 1074, 1072, 1081, 1076, 1077, 1088, 58, 60, 47, 98,
     62, 32, 60, 99, 111, 100, 101, 62, 78, 111, 110, 101, 60, 47, 99, 111, 100, 101, 62,
     10, 60, 98, 62, 1057, 1090, 1088, 1072, 1085, 1072, 58, 60, 47, 98, 62, 32, 60, 99,
     111, 100, 101, 62, 78, 111, 110, 101, 60, 47, 99, 111, 100, 101, 62, 10, 60, 98, 62,
     1056, 1077, 1075, 1080, 1086, 1085, 58, 60, 47, 98, 62, 32, 60, 99, 111, 100, 101, 62,
     78, 111, 110, 101, 60, 47, 99, 111, 100, 101, 62, 10, 60, 98, 62, 1043, 1086, 1088,
     1086, 1076, 58, 60, 47, 98, 62, 32, 60, 99, 111, 100, 101, 62, 78, 111, 110, 101, 60,
     47, 99, 111, 100, 101, 62, 10, 60, 98, 62, 1048, 1085, 1076, 1077, 1082, 1089, 58, 60,
     47, 98, 62, 32, 60, 99, 111, 100, 101, 62, 78, 111, 110, 101, 60, 47, 99, 111, 100,
     101, 62, 10, 60, 98, 62, 1064, 1080, 1088, 1086, 1090, 1072, 58, 60, 47, 98, 62, 32,
     60, 99, 111, 100, 101, 62, 51, 55, 46, 48, 60, 47, 99, 111, 100, 101, 62, 10, 60, 98,
     62, 1044, 1086, 1083, 1075, 1086, 1090, 1072, 58, 60, 47, 98, 62, 32, 60, 99, 111, 100,
     101, 62, 45, 49, 50, 50, 46, 48, 60, 47, 99, 111, 100, 101, 62]"

text \<open>
  The text that it sends for the answer without coordinates: \<open>None\<close> for each missing
  field, and the warning at the end.
\<close>

definition reply_nowhere :: pystr where
  "reply_nowhere = [60, 98, 62, 128269, 32, 1048, 1085, 1092, 1086, 1088, 1084, 1072, 1094,
     1080, 1103, 32, 1086, 1073, 32, 73, 80, 58, 60, 47, 98, 62, 10, 10, 60, 98, 62, 73, 80,
     58, 60, 47, 98, 62, 32, 60, 99, 111, 100, 101, 62, 56, 46, 56, 46, 56, 46, 56, 60, 47,
     99, 111, 100, 101, 62, 10, 60, 98, 62, 1048, 1085, 1090, 1077, 1088, 1085, 1077, 1090,
     32, 1087, 1088, 1086, 1074, 1072, 1081, 1076, 1077, 1088, 58, 60, 47, 98, 62, 32, 60,
     99, 111, 100, 101, 62, 78, 111, 110, 101, 60, 47, 99, 111, 100, 101, 62, 10, 60, 98,
     62, 1057, 1090, 1088, 1072, 1085, 1072, 58, 60, 47, 98, 62, 32, 60, 99, 111, 100, 101,
     62, 78, 111, 110, 101, 60, 47, 99, 111, 100, 101, 62, 10, 60, 98, 62, 1056, 1077, 1075,
     1080, 1086, 1085, 58, 60, 47, 98, 62, 32, 60, 99, 111, 100, 101, 62, 78, 111, 110, 101,
     60, 47, 99, 111, 100, 101, 62, 10, 60, 98, 62, 1043, 1086, 1088, 1086, 1076, 58, 60,
     47, 98, 62, 32, 60, 99, 111, 100, 101, 62, 78, 111, 110, 101, 60, 47, 99, 111, 100,
     101, 62, 10, 60, 98, 62, 1048, 1085, 1076, 1077, 1082, 1089, 58, 60, 47, 98, 62, 32,
     60, 99, 111, 100, 101, 62, 78, 111, 110, 101, 60, 47, 99, 111, 100, 101, 62, 10, 60,
     98, 62, 1064, 1080, 1088, 1086, 1090, 1072, 58, 60, 47, 98, 62, 32, 60, 99, 111, 100,
     101, 62, 78, 111, 110, 101, 60, 47, 99, 111, 100, 101, 62, 10, 60, 98, 62, 1044, 1086,
     1083, 1075, 1086, 1090, 1072, 58, 60, 47, 98, 62, 32, 60, 99, 111, 100, 101, 62, 78,
     111, 110, 101, 60, 47, 99, 111, 100, 101, 62, 10, 10, 9888, 32, 60, 105, 62, 1053,
     1077, 32, 1091, 1076, 1072, 1083, 1086, 1089, 1100, 32, 1089, 1086, 1079, 1076, 1072,
     1090, 1100, 32, 1082, 1072, 1088, 1090, 1091, 32, 1076, 1083, 1103, 32, 1101, 1090,
     1086, 1075, 1086, 32, 73, 80, 60, 47, 105, 62]"

definition message_of :: "pystr \<Rightarrow> message" where
  "message_of t = \<lparr>msg_text = Some t, msg_chat_id = 1\<rparr>"

definition empty_world :: world where
  "empty_world = \<lparr>files = {}, trace = []\<rparr>"

section \<open>The integer parser and the integer literals\<close>

lemma unicode_decimal_less_10: "unicode_decimal zs c = Some d \<Longrightarrow> d < 10"
  by (induction zs) (auto split: if_splits)

lemma digit_of_ascii:
  "c < 128 \<Longrightarrow> digit_of c = (if 48 \<le> c \<and> c \<le> 57 then Some (c - 48) else None)"
  by (simp add: digit_of_def decimal_zeros_def)

lemma digit_of_spaces:
  "digit_of 133 = None" "digit_of 160 = None" "digit_of 5760 = None"
  "digit_of 8192 = None" "digit_of 8193 = None" "digit_of 8194 = None"
  "digit_of 8195 = None" "digit_of 8196 = None" "digit_of 8197 = None"
  "digit_of 8198 = None" "digit_of 8199 = None" "digit_of 8200 = None"
  "digit_of 8201 = None" "digit_of 8202 = None" "digit_of 8232 = None"
  "digit_of 8233 = None" "digit_of 8239 = None" "digit_of 8287 = None"
  "digit_of 12288 = None"
  by (simp_all add: digit_of_def decimal_zeros_def)

lemma digit_of_space: "128 \<le> c \<Longrightarrow> unicode_space c \<Longrightarrow> digit_of c = None"
  by (auto simp: unicode_space_def digit_of_spaces)

lemma to_ascii_blank: "ascii_space (to_ascii c) = int_blank c"
  by (auto simp: to_ascii_def ascii_space_def int_blank_def unicode_space_def
      split: option.splits)

lemma to_ascii_digit: "is_digit (to_ascii c) = (digit_of c \<noteq> None)"
proof (cases "c < 128")
  case True
  then show ?thesis by (simp add: to_ascii_def is_digit_def digit_of_ascii)
next
  case False
  show ?thesis
  proof (cases "unicode_space c")
    case True
    with False show ?thesis
      by (simp add: to_ascii_def is_digit_def digit_of_space)
  next
    case space: False
    show ?thesis
    proof (cases "digit_of c")
      case None
      with False space show ?thesis
        by (simp add: to_ascii_def is_digit_def digit_of_def)
    next
      case (Some d)
      then have "d < 10"
        using unicode_decimal_less_10 by (simp add: digit_of_def)
      with False space Some show ?thesis
        by (simp add: to_ascii_def is_digit_def digit_of_def)
    qed
  qed
qed

lemma to_ascii_value: "digit_of c = Some d \<Longrightarrow> to_ascii c = 48 + d"
proof (cases "c < 128")
  case True
  assume "digit_of c = Some d"
  with True show ?thesis
    by (auto simp: to_ascii_def digit_of_ascii split: if_splits)
next
  case False
  assume d: "digit_of c = Some d"
  with False have "\<not> unicode_space c"
    using digit_of_space [of c] by auto
  with False d show ?thesis
    by (simp add: to_ascii_def digit_of_def)
qed

lemma to_ascii_mark:
  "(to_ascii c = 95) = (c = 95)" "(to_ascii c = 43) = (c = 43)" "(to_ascii c = 45) = (c = 45)"
proof -
  have "to_ascii c = c \<and> c < 128 \<or> to_ascii c = 32 \<and> 128 \<le> c
      \<or> to_ascii c = 63 \<and> 128 \<le> c \<or> (is_digit (to_ascii c) \<and> 128 \<le> c)"
    using to_ascii_digit [of c] to_ascii_value [of c]
    by (cases "digit_of c") (auto simp: to_ascii_def digit_of_def)
  then show "(to_ascii c = 95) = (c = 95)" "(to_ascii c = 43) = (c = 43)"
    "(to_ascii c = 45) = (c = 45)"
    by (auto simp: is_digit_def)
qed

lemma digit_of_mark: "digit_of 95 = None" "digit_of 43 = None" "digit_of 45 = None"
  "digit_of 46 = None"
  by (simp_all add: digit_of_ascii)

lemma int_blank_no_digit: "int_blank c \<Longrightarrow> digit_of c = None"
  using to_ascii_blank [of c] to_ascii_digit [of c]
  by (auto simp: ascii_space_def is_digit_def)

lemma int_blank_no_mark: "int_blank c \<Longrightarrow> c \<noteq> 95 \<and> c \<noteq> 43 \<and> c \<noteq> 45 \<and> c \<noteq> 46"
  by (auto simp: int_blank_def)

lemma to_ascii_group: "digit_or_underscore (to_ascii c) = group_char c"
  by (simp add: digit_or_underscore_def group_char_def to_ascii_digit to_ascii_mark)

lemma blanks_to_ascii: "list_all ascii_space (map to_ascii xs) = list_all int_blank xs"
  by (induction xs) (simp_all add: to_ascii_blank)

lemma dropWhile_blanks_to_ascii:
  "dropWhile ascii_space (map to_ascii p) = map to_ascii (dropWhile int_blank p)"
  by (simp add: dropWhile_map comp_def to_ascii_blank)

lemma takeWhile_group_to_ascii:
  "takeWhile digit_or_underscore (map to_ascii p) = map to_ascii (takeWhile group_char p)"
  by (simp add: takeWhile_map comp_def to_ascii_group)

lemma dropWhile_group_to_ascii:
  "dropWhile digit_or_underscore (map to_ascii p) = map to_ascii (dropWhile group_char p)"
  by (simp add: dropWhile_map comp_def to_ascii_group)

lemma double_underscore_to_ascii: "double_underscore (map to_ascii b) = double_underscore b"
  by (induction b rule: double_underscore.induct) (simp_all add: to_ascii_mark)

lemma filter_digits_to_ascii:
  "filter is_digit (map to_ascii b) = map (\<lambda>d. 48 + d) (digits_of b)"
  by (induction b)
     (auto simp: digits_of_def to_ascii_digit to_ascii_value split: option.splits)

lemma lsd_number_snoc: "lsd_number (ds @ [d]) = lsd_number ds + 10 ^ length ds * d"
  by (induction ds) (simp_all add: algebra_simps)

lemma foldl_decimal:
  "foldl (\<lambda>v c. v * 10 + int (c - 48)) a (map (\<lambda>d. 48 + d) ds)
     = a * 10 ^ length ds + int (decimal_number ds)"
  by (induction ds arbitrary: a)
     (simp_all add: decimal_number_def lsd_number_snoc algebra_simps)

lemma digits_value_to_ascii:
  "digits_value (filter is_digit (map to_ascii b)) = int (decimal_number (digits_of b))"
  by (simp add: digits_value_def filter_digits_to_ascii foldl_decimal)

lemma digit_groups_iff:
  "digit_groups b \<longleftrightarrow>
     b \<noteq> [] \<and> list_all group_char b \<and> hd b \<noteq> 95 \<and> last b \<noteq> 95 \<and> \<not> double_underscore b"
proof (induction b rule: digit_groups.induct)
  case 1
  show ?case by simp
next
  case (2 c)
  show ?case using digit_of_mark(1) by (auto simp: group_char_def)
next
  case (3 c u cs)
  show ?case
  proof (cases "u = 95")
    case True
    with 3 show ?thesis
      using digit_of_mark(1) by (cases cs) (auto simp: group_char_def)
  next
    case False
    with 3 show ?thesis
      using digit_of_mark(1) by (auto simp: group_char_def)
  qed
qed

lemma py_int_unfold:
  assumes tp: "tp = dropWhile int_blank p"
      and t1: "t1 = (case tp of [] \<Rightarrow> [] | c # r \<Rightarrow> if c = 43 \<or> c = 45 then r else tp)"
      and body: "body = takeWhile group_char t1"
      and rest: "rest = dropWhile group_char t1"
  shows "py_int p =
     (if \<not> digit_groups body \<or> \<not> list_all int_blank rest
      then Inl (ValueError invalid_literal)
      else if 4300 < length (digits_of body) then Inl (ValueError exceeds_limit)
      else Inr (if (case tp of [] \<Rightarrow> False | c # r \<Rightarrow> c = 45)
                then - int (decimal_number (digits_of body))
                else int (decimal_number (digits_of body))))"
proof -
  have a: "dropWhile ascii_space (map to_ascii p) = map to_ascii tp"
    by (simp add: tp dropWhile_blanks_to_ascii)
  have b: "(case map to_ascii tp of [] \<Rightarrow> []
            | c # r \<Rightarrow> if c = 43 \<or> c = 45 then r else map to_ascii tp) = map to_ascii t1"
    by (cases tp) (simp_all add: t1 to_ascii_mark)
  have n: "(case map to_ascii tp of [] \<Rightarrow> False | c # r \<Rightarrow> c = 45)
         = (case tp of [] \<Rightarrow> False | c # r \<Rightarrow> c = 45)"
    by (cases tp) (simp_all add: to_ascii_mark)
  have c: "takeWhile digit_or_underscore (map to_ascii t1) = map to_ascii body"
    by (simp add: body takeWhile_group_to_ascii)
  have d: "dropWhile digit_or_underscore (map to_ascii t1) = map to_ascii rest"
    by (simp add: rest dropWhile_group_to_ascii)
  have all: "list_all group_char body"
    by (auto simp: body list_all_iff dest: set_takeWhileD)
  have g: "(map to_ascii body = [] \<or> hd (map to_ascii body) = 95
            \<or> last (map to_ascii body) = 95 \<or> double_underscore (map to_ascii body)
            \<or> \<not> list_all ascii_space (map to_ascii rest))
         = (\<not> digit_groups body \<or> \<not> list_all int_blank rest)"
    using all
    by (cases "body = []")
       (simp_all add: digit_groups_iff hd_map last_map to_ascii_mark
          double_underscore_to_ascii blanks_to_ascii)
  have l: "length (filter is_digit (map to_ascii body)) = length (digits_of body)"
    by (simp add: filter_digits_to_ascii)
  show ?thesis
    unfolding py_int_def Let_def a b n c d g digits_value_to_ascii l
    by (simp add: max_str_digits_def)
qed

lemma digit_groups_head:
  "digit_groups b \<Longrightarrow> b \<noteq> [] \<and> digit_of (hd b) \<noteq> None \<and> list_all group_char b"
  by (cases b) (auto simp: digit_groups_iff group_char_def)

lemma takeWhile_none: "list_all (\<lambda>x. \<not> P x) xs \<Longrightarrow> takeWhile P xs = []"
  by (cases xs) simp_all

lemma dropWhile_none: "list_all (\<lambda>x. \<not> P x) xs \<Longrightarrow> dropWhile P xs = xs"
  by (cases xs) simp_all

lemma blanks_no_group: "list_all int_blank xs \<Longrightarrow> list_all (\<lambda>x. \<not> group_char x) xs"
  using int_blank_no_digit int_blank_no_mark by (auto simp: list_all_iff group_char_def)

lemma int_literal_py_int:
  assumes "int_literal p n"
  shows "py_int p = Inr n"
proof -
  from assms obtain lead sign body trail where
    p: "p = lead @ sign @ body @ trail"
    and lead: "list_all int_blank lead" and trail: "list_all int_blank trail"
    and sign: "sign = [] \<or> sign = [43] \<or> sign = [45]"
    and groups: "digit_groups body"
    and len: "length (digits_of body) \<le> 4300"
    and n: "n = (if sign = [45] then - int (decimal_number (digits_of body))
                 else int (decimal_number (digits_of body)))"
    unfolding int_literal_def by (elim exE conjE)
  from digit_groups_head [OF groups] obtain h t where
    body: "body = h # t" and h: "digit_of h \<noteq> None" and all: "list_all group_char body"
    by (cases body) auto
  have h_plain: "\<not> int_blank h" "h \<noteq> 43" "h \<noteq> 45"
    using h int_blank_no_digit digit_of_mark by auto
  have not_blank: "\<not> int_blank 43" "\<not> int_blank 45"
    using int_blank_no_mark by auto
  have tp: "dropWhile int_blank p = sign @ body @ trail"
    using lead sign h_plain not_blank by (auto simp: p body list_all_iff)
  have t1: "(case sign @ body @ trail of [] \<Rightarrow> []
             | c # r \<Rightarrow> if c = 43 \<or> c = 45 then r else sign @ body @ trail) = body @ trail"
    using sign h_plain by (auto simp: body)
  have neg: "(case sign @ body @ trail of [] \<Rightarrow> False | c # r \<Rightarrow> c = 45) = (sign = [45])"
    using sign h_plain by (auto simp: body)
  have tk: "takeWhile group_char (body @ trail) = body"
    using all blanks_no_group [OF trail] by (simp add: list_all_iff takeWhile_none)
  have dr: "dropWhile group_char (body @ trail) = trail"
    using all blanks_no_group [OF trail] by (simp add: list_all_iff dropWhile_none)
  show ?thesis
    using py_int_unfold [of "sign @ body @ trail" p "body @ trail" body trail]
      groups trail len n
    by (simp add: tp t1 neg tk dr)
qed

lemma py_int_int_literal:
  assumes "py_int p = Inr n"
  shows "int_literal p n"
proof -
  define lead where "lead = takeWhile int_blank p"
  define tp where "tp = dropWhile int_blank p"
  define sign where
    "sign = (case tp of [] \<Rightarrow> [] | c # r \<Rightarrow> if c = 43 \<or> c = 45 then [c] else [])"
  define t1 where "t1 = (case tp of [] \<Rightarrow> [] | c # r \<Rightarrow> if c = 43 \<or> c = 45 then r else tp)"
  define body where "body = takeWhile group_char t1"
  define trail where "trail = dropWhile group_char t1"
  note u = py_int_unfold [OF tp_def t1_def body_def trail_def]
  from assms u have groups: "digit_groups body" and blanks: "list_all int_blank trail"
    and len: "length (digits_of body) \<le> 4300"
    and n: "n = (if (case tp of [] \<Rightarrow> False | c # r \<Rightarrow> c = 45)
                 then - int (decimal_number (digits_of body))
                 else int (decimal_number (digits_of body)))"
    by (auto split: if_splits)
  have "p = lead @ tp"
    by (simp add: lead_def tp_def)
  moreover have "tp = sign @ t1"
    by (cases tp) (auto simp: sign_def t1_def)
  moreover have "t1 = body @ trail"
    by (simp add: body_def trail_def)
  ultimately have p: "p = lead @ sign @ body @ trail"
    by simp
  have lead: "list_all int_blank lead"
    by (auto simp: lead_def list_all_iff dest: set_takeWhileD)
  have sign: "sign = [] \<or> sign = [43] \<or> sign = [45]"
    by (cases tp) (auto simp: sign_def)
  have neg: "(case tp of [] \<Rightarrow> False | c # r \<Rightarrow> c = 45) = (sign = [45])"
    by (cases tp) (auto simp: sign_def)
  have "p = lead @ sign @ body @ trail
      \<and> list_all int_blank lead \<and> list_all int_blank trail
      \<and> (sign = [] \<or> sign = [43] \<or> sign = [45])
      \<and> digit_groups body
      \<and> length (digits_of body) \<le> 4300
      \<and> n = (if sign = [45] then - int (decimal_number (digits_of body))
             else int (decimal_number (digits_of body)))"
    using p lead blanks sign groups len n by (simp only: neg simp_thms)
  then show ?thesis
    unfolding int_literal_def by (intro exI)
qed

lemma py_int_literal: "py_int p = Inr n \<longleftrightarrow> int_literal p n"
proof
  show "py_int p = Inr n \<Longrightarrow> int_literal p n" by (rule py_int_int_literal)
  show "int_literal p n \<Longrightarrow> py_int p = Inr n" by (rule int_literal_py_int)
qed

section \<open>Properties of the validator\<close>

lemma py_int_raises_ValueError: "py_int s = Inl e \<Longrightarrow> \<exists>m. e = ValueError m"
  by (auto simp: py_int_def Let_def split: if_splits)

lemma split_dot_nonempty: "split_dot s \<noteq> []"
  by (induction s) (auto split: list.splits)

lemma split_dot_no_dot: "46 \<notin> set a \<Longrightarrow> split_dot a = [a]"
  by (induction a) auto

lemma split_dot_append: "46 \<notin> set a \<Longrightarrow> split_dot (a @ 46 # r) = a # split_dot r"
  by (induction a) auto

lemma split_dot_parts: "p \<in> set (split_dot s) \<Longrightarrow> 46 \<notin> set p"
  by (induction s arbitrary: p) (auto split: if_splits list.splits)

lemma join_split_dot: "join_dot (split_dot s) = s"
proof (induction s)
  case Nil
  show ?case by simp
next
  case (Cons c cs)
  obtain p ps where sp: "split_dot cs = p # ps"
    using split_dot_nonempty [of cs] by (cases "split_dot cs") auto
  show ?case
  proof (cases "c = 46")
    case True
    with Cons sp show ?thesis by simp
  next
    case False
    with Cons sp show ?thesis by (cases ps) auto
  qed
qed

lemma all_octets_raises: "all_octets ps = Inl e \<Longrightarrow> \<exists>m. e = ValueError m"
  by (induction ps) (auto split: sum.splits if_splits dest: py_int_raises_ValueError)

lemma split_four_iff:
  "split_dot s = [a, b, c, d] \<longleftrightarrow>
     s = a @ [46] @ b @ [46] @ c @ [46] @ d
       \<and> 46 \<notin> set a \<and> 46 \<notin> set b \<and> 46 \<notin> set c \<and> 46 \<notin> set d"
proof
  assume sp: "split_dot s = [a, b, c, d]"
  have "join_dot [a, b, c, d] = s"
    using join_split_dot [of s] sp by simp
  moreover have "46 \<notin> set a" "46 \<notin> set b" "46 \<notin> set c" "46 \<notin> set d"
    using split_dot_parts [of _ s] sp by simp_all
  ultimately show "s = a @ [46] @ b @ [46] @ c @ [46] @ d
       \<and> 46 \<notin> set a \<and> 46 \<notin> set b \<and> 46 \<notin> set c \<and> 46 \<notin> set d"
    by simp
next
  assume "s = a @ [46] @ b @ [46] @ c @ [46] @ d
       \<and> 46 \<notin> set a \<and> 46 \<notin> set b \<and> 46 \<notin> set c \<and> 46 \<notin> set d"
  then show "split_dot s = [a, b, c, d]"
    by (simp add: split_dot_append split_dot_no_dot)
qed

lemma lenient_octet_py_int:
  "lenient_octet p \<longleftrightarrow> (\<exists>n. py_int p = Inr n \<and> 0 \<le> n \<and> n \<le> 255)"
  by (simp add: lenient_octet_def py_int_literal)

lemma all_octets_True: "all_octets ps = Inr True \<longleftrightarrow> list_all lenient_octet ps"
  by (induction ps) (auto simp: lenient_octet_py_int split: sum.splits)

lemma int_literal_no_dot:
  assumes "int_literal p n"
  shows "46 \<notin> set p"
proof -
  from assms obtain lead sign body trail where
    p: "p = lead @ sign @ body @ trail"
    and lead: "list_all int_blank lead" and trail: "list_all int_blank trail"
    and sign: "sign = [] \<or> sign = [43] \<or> sign = [45]"
    and groups: "digit_groups body"
    unfolding int_literal_def by (elim exE conjE)
  have "46 \<notin> set lead" "46 \<notin> set trail"
    using lead trail int_blank_no_mark by (auto simp: list_all_iff)
  moreover have "46 \<notin> set sign"
    using sign by auto
  moreover have "46 \<notin> set body"
    using digit_groups_head [OF groups] digit_of_mark(4)
    by (auto simp: list_all_iff group_char_def)
  ultimately show ?thesis
    by (simp add: p)
qed

lemma lenient_octet_no_dot: "lenient_octet p \<Longrightarrow> 46 \<notin> set p"
  using int_literal_no_dot by (auto simp: lenient_octet_def)

lemma lenient_valid_ip_split:
  "lenient_valid_ip s \<longleftrightarrow>
     length (split_dot s) = 4 \<and> list_all lenient_octet (split_dot s)"
proof
  assume "lenient_valid_ip s"
  then obtain a b c d where s: "s = a @ [46] @ b @ [46] @ c @ [46] @ d"
    and o: "lenient_octet a" "lenient_octet b" "lenient_octet c" "lenient_octet d"
    unfolding lenient_valid_ip_def by (elim exE conjE)
  have "split_dot s = [a, b, c, d]"
    using s o split_four_iff [of s a b c d] by (simp add: lenient_octet_no_dot)
  with o show "length (split_dot s) = 4 \<and> list_all lenient_octet (split_dot s)"
    by simp
next
  assume h: "length (split_dot s) = 4 \<and> list_all lenient_octet (split_dot s)"
  then obtain a b c d where sp: "split_dot s = [a, b, c, d]"
    by (auto simp: length_Suc_conv numeral_eq_Suc)
  with h have o: "lenient_octet a \<and> lenient_octet b \<and> lenient_octet c \<and> lenient_octet d"
    by simp
  have "s = a @ [46] @ b @ [46] @ c @ [46] @ d"
    using sp split_four_iff [of s a b c d] by simp
  with o have "s = a @ [46] @ b @ [46] @ c @ [46] @ d
      \<and> lenient_octet a \<and> lenient_octet b \<and> lenient_octet c \<and> lenient_octet d"
    by simp
  then show "lenient_valid_ip s"
    unfolding lenient_valid_ip_def by (intro exI)
qed

lemma is_valid_ip_split:
  "is_valid_ip s = Inr (length (split_dot s) = 4 \<and> list_all lenient_octet (split_dot s))"
proof (cases "length (split_dot s) = 4")
  case False
  then show ?thesis
    by (simp add: is_valid_ip_def)
next
  case True
  show ?thesis
  proof (cases "all_octets (split_dot s)")
    case (Inl e)
    then obtain m where e: "e = ValueError m"
      using all_octets_raises by blast
    have "\<not> list_all lenient_octet (split_dot s)"
      using Inl all_octets_True [of "split_dot s"] by simp
    with True Inl e show ?thesis
      by (simp add: is_valid_ip_def)
  next
    case (Inr b)
    have "b = list_all lenient_octet (split_dot s)"
      using Inr all_octets_True [of "split_dot s"] by (cases b) auto
    with True Inr show ?thesis
      by (simp add: is_valid_ip_def)
  qed
qed

lemma is_valid_ip_returns: "\<exists>b. is_valid_ip s = Inr b"
  by (simp add: is_valid_ip_split)

lemma plain_octet_chars: "plain_octet p \<Longrightarrow> list_all (\<lambda>c. 48 \<le> c \<and> c \<le> 57) p"
  by (simp add: plain_octet_def)

lemma plain_valid_ip_chars:
  "plain_valid_ip s \<Longrightarrow> list_all (\<lambda>c. c = 46 \<or> (48 \<le> c \<and> c \<le> 57)) s"
  unfolding plain_valid_ip_def
  by (auto simp: list_all_iff dest!: plain_octet_chars)

lemma no_underscore_no_double: "95 \<notin> set b \<Longrightarrow> \<not> double_underscore b"
  by (induction b rule: double_underscore.induct) simp_all

lemma plain_digits_of:
  "list_all (\<lambda>c. 48 \<le> c \<and> c \<le> 57) p \<Longrightarrow> digits_of p = map (\<lambda>c. c - 48) p"
  by (induction p) (simp_all add: digits_of_def digit_of_ascii)

lemma plain_digit_groups:
  assumes "p \<noteq> []" and "list_all (\<lambda>c. 48 \<le> c \<and> c \<le> 57) p"
  shows "digit_groups p"
proof -
  have each: "\<And>c. c \<in> set p \<Longrightarrow> 48 \<le> c \<and> c \<le> 57"
    using assms(2) by (simp add: list_all_iff)
  have "\<And>c. c \<in> set p \<Longrightarrow> group_char c"
  proof -
    fix c assume "c \<in> set p"
    then have "48 \<le> c \<and> c \<le> 57" by (rule each)
    then show "group_char c" by (simp add: group_char_def digit_of_ascii)
  qed
  then have "list_all group_char p"
    by (simp add: list_all_iff)
  moreover have "hd p \<noteq> 95" "last p \<noteq> 95"
    using each [of "hd p"] each [of "last p"] assms(1) by auto
  moreover have "95 \<notin> set p"
    using each [of 95] by auto
  then have "\<not> double_underscore p"
    by (rule no_underscore_no_double)
  ultimately show ?thesis
    using assms(1) by (simp add: digit_groups_iff)
qed

lemma plain_octet_lenient:
  assumes "plain_octet p" and "length p \<le> 4300"
  shows "lenient_octet p"
proof -
  from assms(1) have p: "p \<noteq> []" "list_all (\<lambda>c. 48 \<le> c \<and> c \<le> 57) p"
    and v: "decimal_number (map (\<lambda>c. c - 48) p) \<le> 255"
    by (simp_all add: plain_octet_def)
  let ?n = "int (decimal_number (digits_of p))"
  have "p = [] @ [] @ p @ []
      \<and> list_all int_blank [] \<and> list_all int_blank []
      \<and> (([]::nat list) = [] \<or> ([]::nat list) = [43] \<or> ([]::nat list) = [45])
      \<and> digit_groups p
      \<and> length (digits_of p) \<le> 4300
      \<and> ?n = (if ([]::nat list) = [45] then - int (decimal_number (digits_of p))
               else int (decimal_number (digits_of p)))"
    using plain_digit_groups [OF p] assms(2) by (simp add: plain_digits_of [OF p(2)])
  then have "int_literal p ?n"
    unfolding int_literal_def by (intro exI)
  moreover have "0 \<le> ?n" "?n \<le> 255"
    using v by (simp_all add: plain_digits_of [OF p(2)])
  ultimately show ?thesis
    unfolding lenient_octet_def by (intro exI conjI)
qed

lemma plain_valid_ip_accepted:
  assumes "plain_valid_ip s" and "length s \<le> 4300"
  shows "is_valid_ip s = Inr True"
proof -
  from assms(1) obtain a b c d where s: "s = a @ [46] @ b @ [46] @ c @ [46] @ d"
    and o: "plain_octet a" "plain_octet b" "plain_octet c" "plain_octet d"
    unfolding plain_valid_ip_def by (elim exE conjE)
  have "length a \<le> 4300" "length b \<le> 4300" "length c \<le> 4300" "length d \<le> 4300"
    using assms(2) by (simp_all add: s)
  with o have "lenient_octet a \<and> lenient_octet b \<and> lenient_octet c \<and> lenient_octet d"
    by (simp add: plain_octet_lenient)
  with s have "s = a @ [46] @ b @ [46] @ c @ [46] @ d
      \<and> lenient_octet a \<and> lenient_octet b \<and> lenient_octet c \<and> lenient_octet d"
    by simp
  then have "lenient_valid_ip s"
    unfolding lenient_valid_ip_def by (intro exI)
  then show ?thesis
    by (simp add: is_valid_ip_split lenient_valid_ip_split)
qed

lemma lenient_examples:
  "is_valid_ip ip8 = Inr True"
  "is_valid_ip underscored_ip = Inr True"
  "is_valid_ip padded_ip = Inr True"
  "is_valid_ip arabic_ip = Inr True"
  "is_valid_ip not_an_ip = Inr False"
  by (simp_all add: ip8_def underscored_ip_def padded_ip_def arabic_ip_def not_an_ip_def
      is_valid_ip_def
      py_int_def Let_def to_ascii_def ascii_space_def unicode_space_def decimal_zeros_def
      digit_or_underscore_def is_digit_def max_str_digits_def digits_value_def)

lemma ip8_plain: "plain_valid_ip ip8"
proof -
  have "ip8 = [56] @ [46] @ [56] @ [46] @ [56] @ [46] @ [56]
      \<and> plain_octet [56] \<and> plain_octet [56] \<and> plain_octet [56] \<and> plain_octet [56]"
    by (simp add: ip8_def plain_octet_def decimal_number_def)
  then show ?thesis
    unfolding plain_valid_ip_def by (intro exI)
qed

text \<open>
  C1, as the program has it. The validator never raises, and it returns true exactly for
  the strings of four segments with a dot between neighbours in which every segment is an
  integer literal of the language, with a value from 0 to 255: blanks around it, a sign,
  decimal digits of any script and single underscores between digits are admitted, and
  at most 4300 digits. The strings that the claim describes, four rows of the digits 0
  to 9 with values up to 255, are among them as long as they have at most 4300
  characters.
\<close>

theorem is_valid_ip_lenient:
  "is_valid_ip s = Inr (lenient_valid_ip s)
   \<and> (plain_valid_ip s \<and> length s \<le> 4300 \<longrightarrow> lenient_valid_ip s)"
proof
  have "is_valid_ip s
      = Inr (length (split_dot s) = 4 \<and> list_all lenient_octet (split_dot s))"
    by (rule is_valid_ip_split)
  then show accepted: "is_valid_ip s = Inr (lenient_valid_ip s)"
    by (simp add: lenient_valid_ip_split)
  show "plain_valid_ip s \<and> length s \<le> 4300 \<longrightarrow> lenient_valid_ip s"
  proof
    assume "plain_valid_ip s \<and> length s \<le> 4300"
    then have "is_valid_ip s = Inr True"
      by (simp add: plain_valid_ip_accepted)
    with accepted show "lenient_valid_ip s"
      by simp
  qed
qed

theorem is_valid_ip_lenient_witness:
  "plain_valid_ip ip8 \<and> length ip8 \<le> 4300 \<and> lenient_valid_ip ip8
   \<and> lenient_valid_ip padded_ip \<and> \<not> lenient_valid_ip not_an_ip"
  using is_valid_ip_lenient [of ip8] is_valid_ip_lenient [of padded_ip]
    is_valid_ip_lenient [of not_an_ip]
  by (simp add: lenient_examples ip8_plain) (simp add: ip8_def)

text \<open>
  C1, as the claim words it, fails: the validator accepts a segment with an underscore
  between digits, segments with blanks around the digits, and digits of another script,
  none of which is four rows of the digits 0 to 9 with dots between them.
\<close>

theorem is_valid_ip_plain_counterexample:
  "is_valid_ip underscored_ip = Inr True \<and> \<not> plain_valid_ip underscored_ip
   \<and> is_valid_ip padded_ip = Inr True \<and> \<not> plain_valid_ip padded_ip
   \<and> is_valid_ip arabic_ip = Inr True \<and> \<not> plain_valid_ip arabic_ip"
proof -
  have "\<not> list_all (\<lambda>c. c = 46 \<or> (48 \<le> c \<and> c \<le> 57)) underscored_ip"
    "\<not> list_all (\<lambda>c. c = 46 \<or> (48 \<le> c \<and> c \<le> 57)) padded_ip"
    "\<not> list_all (\<lambda>c. c = 46 \<or> (48 \<le> c \<and> c \<le> 57)) arabic_ip"
    by (simp_all add: underscored_ip_def padded_ip_def arabic_ip_def)
  then have "\<not> plain_valid_ip underscored_ip" "\<not> plain_valid_ip padded_ip"
    "\<not> plain_valid_ip arabic_ip"
    using plain_valid_ip_chars by blast+
  then show ?thesis
    by (simp add: lenient_examples)
qed

section \<open>Properties of the lookup and of the handlers\<close>

lemma send_trace: "trace (fst (send env e w)) = trace w @ [e]"
  by (simp add: send_def emit_def)

lemma send_files: "files (fst (send env e w)) = files w"
  by (simp add: send_def emit_def)


lemma send_not_RequestException: "send env e w = (w', Inl x) \<Longrightarrow> \<not> is_RequestException x"
  by (auto simp: send_def split: option.splits)

lemma get_ip_info_try_world:
  "get_ip_info_try env ip w = (w', r) \<Longrightarrow>
     trace w' = trace w @ [HttpGet (geo_url @ py_str env ip) 10]"
  by (auto simp: get_ip_info_try_def Let_def emit_def
      split: sum.splits json.splits option.splits if_splits)

lemma get_ip_info_trace:
  "get_ip_info env ip w = (w', r) \<Longrightarrow>
     trace w' = trace w @ [HttpGet (geo_url @ py_str env ip) 10]"
  by (auto simp: get_ip_info_def split: prod.splits sum.splits if_splits
      dest: get_ip_info_try_world)

lemma get_ip_info_try_record:
  "get_ip_info_try env ip w = (w', Inr (Some d, fn)) \<Longrightarrow>
     \<exists>r. http_get_json env (geo_url @ py_str env ip) 10 = Inr (JObj r)
       \<and> dict_get r k_status JNull \<noteq> JStr v_fail \<and> d = build_data r
       \<and> ((fn = JNull \<and> files w' = files w
            \<and> \<not> (truthy (dict_get r k_lat JNull) \<and> truthy (dict_get r k_lon JNull)))
          \<or> (\<exists>q. map_of r k_query = Some q
                \<and> fn = JStr (ip_map_prefix @ py_str env q @ html_suffix)
                \<and> files w' = insert (ip_map_prefix @ py_str env q @ html_suffix) (files w)
                \<and> truthy (dict_get r k_lat JNull) \<and> truthy (dict_get r k_lon JNull)))"
  by (auto simp: get_ip_info_try_def Let_def emit_def dict_subscript_def
      split: sum.splits json.splits option.splits if_splits)

lemma get_ip_info_record:
  "get_ip_info env ip w = (w', Some d, fn) \<Longrightarrow>
     \<exists>r. http_get_json env (geo_url @ py_str env ip) 10 = Inr (JObj r)
       \<and> dict_get r k_status JNull \<noteq> JStr v_fail \<and> d = build_data r
       \<and> ((fn = JNull \<and> files w' = files w
            \<and> \<not> (truthy (dict_get r k_lat JNull) \<and> truthy (dict_get r k_lon JNull)))
          \<or> (\<exists>q. map_of r k_query = Some q
                \<and> fn = JStr (ip_map_prefix @ py_str env q @ html_suffix)
                \<and> files w' = insert (ip_map_prefix @ py_str env q @ html_suffix) (files w)
                \<and> truthy (dict_get r k_lat JNull) \<and> truthy (dict_get r k_lon JNull)))"
proof -
  assume a: "get_ip_info env ip w = (w', Some d, fn)"
  have "get_ip_info_try env ip w = (w', Inr (Some d, fn))"
    using a by (auto simp: get_ip_info_def split: prod.splits sum.splits if_splits)
  then show ?thesis by (rule get_ip_info_try_record)
qed

lemma send_info_and_map_files: "files (fst (send_info_and_map env m txt f w)) = files w"
  by (auto simp: send_info_and_map_def send_def emit_def split: option.splits)

lemma send_info_and_map_raises:
  "send_info_and_map env m txt f w = (w', Inl x) \<Longrightarrow> \<not> is_RequestException x"
  by (auto simp: send_info_and_map_def send_def split: option.splits)

lemma process_ip_request_raises:
  "process_ip_request env m ip w = (w', Inl x) \<Longrightarrow> \<not> is_RequestException x"
  by (auto simp: process_ip_request_def send_def
      split: prod.splits sum.splits option.splits if_splits json.splits
      dest: send_info_and_map_raises)

lemma send_info_and_map_trace:
  "telegram env (Answer (msg_chat_id m) txt None) = None \<Longrightarrow>
     trace (fst (send_info_and_map env m txt f w)) =
       trace w @ [Answer (msg_chat_id m) txt None, AnswerDocument (msg_chat_id m) f map_caption]"
  by (simp add: send_info_and_map_def send_def emit_def)

lemma remove_if_exists_trace: "trace (remove_if_exists f w) = trace w"
  by (simp add: remove_if_exists_def)

lemma process_ip_request_with_map:
  assumes "telegram env (SendChatAction (msg_chat_id m) typing) = None"
      and "get_ip_info env ip (emit (SendChatAction (msg_chat_id m) typing) w)
             = (w2, Some d, JStr f)"
      and "f \<noteq> []"
  shows "process_ip_request env m ip w =
           (remove_if_exists f (fst (send_info_and_map env m (info_text env d) f w2)),
            snd (send_info_and_map env m (info_text env d) f w2))"
  using assms by (simp add: process_ip_request_def send_def split: prod.splits)

lemma process_ip_request_without_map:
  assumes "telegram env (SendChatAction (msg_chat_id m) typing) = None"
      and "get_ip_info env ip (emit (SendChatAction (msg_chat_id m) typing) w)
             = (w2, Some d, JNull)"
  shows "process_ip_request env m ip w =
           send env (Answer (msg_chat_id m) (info_text env d @ map_warning) None) w2"
  using assms by (simp add: process_ip_request_def send_def)

lemma get_ip_info_filename:
  "get_ip_info env ip w = (w', Some d, fn) \<Longrightarrow> fn \<noteq> JNull \<Longrightarrow>
     \<exists>f. fn = JStr f \<and> f \<noteq> [] \<and> f \<in> files w'"
  by (drule get_ip_info_record) (auto simp: ip_map_prefix_def)

lemma send_info_and_map_extends:
  "\<exists>rest. trace (fst (send_info_and_map env m txt f w)) = trace w @ rest"
  by (auto simp: send_info_and_map_def send_def emit_def split: option.splits)


lemma process_ip_request_no_record:
  assumes "telegram env (SendChatAction (msg_chat_id m) typing) = None"
      and "get_ip_info env ip (emit (SendChatAction (msg_chat_id m) typing) w)
             = (w2, None, fn)"
  shows "process_ip_request env m ip w =
           send env (Answer (msg_chat_id m) (cross_prefix @ py_str env fn) None) w2"
  using assms by (simp add: process_ip_request_def send_def)


lemma process_ip_request_begins:
  assumes "telegram env (SendChatAction (msg_chat_id m) typing) = None"
  shows "\<exists>rest. trace (fst (process_ip_request env m ip w)) =
           trace w @ [SendChatAction (msg_chat_id m) typing,
                      HttpGet (geo_url @ py_str env ip) 10] @ rest"
proof -
  obtain w2 data fn where
    g: "get_ip_info env ip (emit (SendChatAction (msg_chat_id m) typing) w) = (w2, data, fn)"
    by (cases "get_ip_info env ip (emit (SendChatAction (msg_chat_id m) typing) w)") auto
  have w2: "trace w2 = trace w @ [SendChatAction (msg_chat_id m) typing,
                                  HttpGet (geo_url @ py_str env ip) 10]"
    using get_ip_info_trace [OF g] by (simp add: emit_def)
  show ?thesis
  proof (cases data)
    case None
    with g have "get_ip_info env ip (emit (SendChatAction (msg_chat_id m) typing) w)
        = (w2, None, fn)"
      by simp
    from process_ip_request_no_record [OF assms this] show ?thesis
      by (simp add: send_trace w2)
  next
    case (Some d)
    with g have g': "get_ip_info env ip (emit (SendChatAction (msg_chat_id m) typing) w)
        = (w2, Some d, fn)"
      by simp
    show ?thesis
    proof (cases "fn = JNull")
      case True
      with g' have "get_ip_info env ip (emit (SendChatAction (msg_chat_id m) typing) w)
          = (w2, Some d, JNull)"
        by simp
      from process_ip_request_without_map [OF assms this] show ?thesis
        by (simp add: send_trace w2)
    next
      case False
      from get_ip_info_filename [OF g' False] obtain f where f: "fn = JStr f" "f \<noteq> []"
        by auto
      with g' have "get_ip_info env ip (emit (SendChatAction (msg_chat_id m) typing) w)
          = (w2, Some d, JStr f)"
        by simp
      from process_ip_request_with_map [OF assms this f(2)]
      have p: "trace (fst (process_ip_request env m ip w)) =
                 trace (fst (send_info_and_map env m (info_text env d) f w2))"
        by (simp add: remove_if_exists_trace)
      obtain rest where
        "trace (fst (send_info_and_map env m (info_text env d) f w2)) = trace w2 @ rest"
        using send_info_and_map_extends by blast
      with p w2 show ?thesis by simp
    qed
  qed
qed

lemma cmd_my_ip_request_error:
  "http_get_json env ipify_url 5 = Inl e \<Longrightarrow> is_RequestException e \<Longrightarrow>
     cmd_my_ip env m w =
       send env (Answer (msg_chat_id m) manual_entry_text None) (emit (HttpGet ipify_url 5) w)"
  by (simp add: cmd_my_ip_def cmd_my_ip_try_def Let_def)

lemma cmd_my_ip_unusable:
  "http_get_json env ipify_url 5 = Inr (JObj r) \<Longrightarrow> \<not> truthy (dict_get r k_ip JNull) \<Longrightarrow>
     cmd_my_ip env m w =
       send env (Answer (msg_chat_id m) cannot_determine_text None)
         (emit (HttpGet ipify_url 5) w)"
  by (simp add: cmd_my_ip_def cmd_my_ip_try_def Let_def send_def split: option.splits)

lemma cmd_my_ip_usable:
  assumes "http_get_json env ipify_url 5 = Inr (JObj r)"
      and "truthy (dict_get r k_ip JNull)"
  shows "cmd_my_ip env m w =
           process_ip_request env m (dict_get r k_ip JNull) (emit (HttpGet ipify_url 5) w)"
proof -
  let ?p = "process_ip_request env m (dict_get r k_ip JNull) (emit (HttpGet ipify_url 5) w)"
  have t: "cmd_my_ip_try env m w = ?p"
    using assms by (simp add: cmd_my_ip_try_def Let_def)
  obtain w1 res where p: "?p = (w1, res)"
    by (cases ?p) auto
  show ?thesis
  proof (cases res)
    case (Inl x)
    with p have "\<not> is_RequestException x"
      using process_ip_request_raises by blast
    with t p Inl show ?thesis by (simp add: cmd_my_ip_def)
  next
    case (Inr u)
    with t p show ?thesis by (simp add: cmd_my_ip_def)
  qed
qed

lemma handle_message_my_ip:
  "\<not> command_start env m \<Longrightarrow> msg_text m = Some t \<Longrightarrow> t \<noteq> [] \<Longrightarrow>
   lower env t = my_ip_word \<Longrightarrow> handle_message env m w = cmd_my_ip env m w"
  by (simp add: handle_message_def text_is_def help_word_def my_ip_word_def)



lemma get_ip_info_no_record:
  "get_ip_info_try env ip w = (w', Inl x) \<Longrightarrow>
     get_ip_info env ip w =
       (w', None, JStr ((if is_RequestException x then network_error_prefix
                         else generic_error_prefix) @ exn_str x))"
  by (simp add: get_ip_info_def)




text \<open>
  A self-IP body that decodes to something other than an object is no failure of the
  call; \<open>cmd_my_ip\<close> then raises the attribute error of \<open>.get\<close>, which its \<open>except\<close>
  clause does not catch.
\<close>

lemma cmd_my_ip_not_object:
  "http_get_json env ipify_url 5 = Inr v \<Longrightarrow> (\<forall>r. v \<noteq> JObj r) \<Longrightarrow>
     cmd_my_ip env m w = (emit (HttpGet ipify_url 5) w, Inl (no_attribute_get v))"
  by (cases v) (simp_all add: cmd_my_ip_def cmd_my_ip_try_def Let_def no_attribute_get_def)

section \<open>The claims about the lookup and the handlers\<close>

lemma get_ip_info_without_coordinates:
  assumes "http_get_json env (geo_url @ py_str env ip) 10 = Inr (JObj r)"
      and "dict_get r k_status JNull \<noteq> JStr v_fail"
      and "map_of r k_lat = None \<or> map_of r k_lon = None"
  shows "get_ip_info env ip w =
           (emit (HttpGet (geo_url @ py_str env ip) 10) w, Some (build_data r), JNull)"
  using assms by (auto simp: get_ip_info_def get_ip_info_try_def Let_def dict_get_def)

lemma get_ip_info_with_coordinates:
  assumes "http_get_json env (geo_url @ py_str env ip) 10 = Inr (JObj r)"
      and "dict_get r k_status JNull \<noteq> JStr v_fail"
      and "truthy (dict_get r k_lat JNull)" and "truthy (dict_get r k_lon JNull)"
      and "folium_marker env (dict_get r k_lat JNull) (dict_get r k_lon JNull)
             (dict_get r k_city (JStr unknown_location)) = None"
      and "map_of r k_query = Some q"
      and "save_map env (ip_map_prefix @ py_str env q @ html_suffix) = None"
  shows "get_ip_info env ip w =
           ((emit (HttpGet (geo_url @ py_str env ip) 10) w)
              \<lparr>files := insert (ip_map_prefix @ py_str env q @ html_suffix) (files w)\<rparr>,
            Some (build_data r), JStr (ip_map_prefix @ py_str env q @ html_suffix))"
  using assms
  by (simp add: get_ip_info_def get_ip_info_try_def Let_def dict_subscript_def emit_def)

lemmas literal_defs = geo_url_def ipify_url_def k_status_def v_fail_def k_message_def
  unknown_error_def k_query_def k_isp_def k_country_def k_regionName_def k_city_def k_zip_def
  k_lat_def k_lon_def k_ip_def ip_map_prefix_def html_suffix_def typing_def
  ip8_def ip1_def v_success_def invalid_query_def slash_start_def help_word_def my_ip_word_def

lemma get_ip_info_california:
  "get_ip_info (example_env (web x (Inr (JObj fields_california))) tg) (JStr ip8) w =
     (w\<lparr>files := insert (ip_map_prefix @ ip8 @ html_suffix) (files w),
        trace := trace w @ [HttpGet (geo_url @ ip8) 10]\<rparr>,
      Some (build_data fields_california), JStr (ip_map_prefix @ ip8 @ html_suffix))"
  by (simp add: get_ip_info_def get_ip_info_try_def example_env_def web_def Let_def emit_def
      py_str_def fields_california_def dict_get_def dict_subscript_def literal_defs)

lemma get_ip_info_nowhere:
  "get_ip_info (example_env (web x (Inr (JObj fields_nowhere))) tg) (JStr ip8) w =
     (w\<lparr>trace := trace w @ [HttpGet (geo_url @ ip8) 10]\<rparr>,
      Some (build_data fields_nowhere), JNull)"
  by (simp add: get_ip_info_def get_ip_info_try_def example_env_def web_def Let_def emit_def
      py_str_def fields_nowhere_def dict_get_def dict_subscript_def literal_defs)

lemma example_env_simps:
  "telegram (example_env http tg) = tg"
  "http_get_json (example_env http tg) url k = http url"
  "lower (example_env http tg) = lower_basic"
  "command_start (example_env http tg) m = (msg_text m = Some slash_start)"
  "str_value (example_env http tg) = str_basic"
  by (simp_all add: example_env_def)

lemma reply_examples:
  "info_text (example_env http tg) (build_data fields_california) = reply_california"
  "info_text (example_env http tg) (build_data fields_nowhere) @ map_warning = reply_nowhere"
  by (simp_all add: info_text_def format_item_def build_data_def dict_get_def py_str_def
      example_env_simps str_basic_def fields_california_def fields_nowhere_def
      reply_california_def reply_nowhere_def map_warning_def info_header_def bold_open_def
      label_close_def code_close_def newline_def label_ip_def label_isp_def
      label_country_def label_region_def label_city_def label_zip_def label_lat_def
      label_lon_def literal_defs)

text \<open>
  C2. A successful answer that carries both coordinates should give a map and its file
  name. On an answer whose latitude is present with the value 0.0 the program returns
  the record without a file name and writes no file: the test \<open>if lat and lon\<close> takes a
  zero for a missing coordinate.
\<close>

theorem zero_latitude_no_map:
  "map_of fields_equator k_lat = Some (JFloat (Finite 0))
   \<and> map_of fields_equator k_lon = Some (JFloat (Finite 10))
   \<and> dict_get fields_equator k_status JNull \<noteq> JStr v_fail
   \<and> get_ip_info (example_env (web (Inr JNull) (Inr (JObj fields_equator))) quiet)
        (JStr ip8) empty_world
      = (\<lparr>files = {}, trace = [HttpGet (geo_url @ ip8) 10]\<rparr>,
         Some (build_data fields_equator), JNull)"
  by (simp add: get_ip_info_def get_ip_info_try_def example_env_def web_def Let_def emit_def
      py_str_def fields_equator_def dict_get_def dict_subscript_def empty_world_def
      literal_defs)

text \<open>
  C3. Once the typing indicator has been accepted and the lookup has given a record with
  the name of a map file, the file is gone when \<open>process_ip_request\<close> ends, whether the
  text and the document were sent or one of the two calls raised: the files left are
  those after the lookup without the map.
\<close>

theorem artifact_removed:
  assumes "telegram env (SendChatAction (msg_chat_id m) typing) = None"
      and "get_ip_info env ip (emit (SendChatAction (msg_chat_id m) typing) w)
             = (w2, Some d, JStr f)"
  shows "f \<notin> files (fst (process_ip_request env m ip w))
     \<and> files (fst (process_ip_request env m ip w)) = files w2 - {f}"
proof -
  from get_ip_info_filename [OF assms(2)] have f: "f \<noteq> []" "f \<in> files w2"
    by auto
  have "process_ip_request env m ip w =
           (remove_if_exists f (fst (send_info_and_map env m (info_text env d) f w2)),
            snd (send_info_and_map env m (info_text env d) f w2))"
    using assms f by (simp add: process_ip_request_with_map)
  then show ?thesis
    using f by (simp add: remove_if_exists_def send_info_and_map_files)
qed

theorem artifact_removed_witness:
  "ip_map_prefix @ ip8 @ html_suffix \<notin>
     files (fst (process_ip_request
       (example_env (web (Inr JNull) (Inr (JObj fields_california))) no_documents)
       (message_of ip8) (JStr ip8) empty_world))
   \<and> snd (process_ip_request
       (example_env (web (Inr JNull) (Inr (JObj fields_california))) no_documents)
       (message_of ip8) (JStr ip8) empty_world) = Inl (TelegramAPIError timed_out)"
proof -
  let ?E = "example_env (web (Inr JNull) (Inr (JObj fields_california))) no_documents"
  let ?m = "message_of ip8"
  have t: "telegram ?E (SendChatAction (msg_chat_id ?m) typing) = None"
    by (simp add: example_env_simps no_documents_def)
  note g = get_ip_info_california
    [of "Inr JNull" no_documents "emit (SendChatAction (msg_chat_id ?m) typing) empty_world"]
  have "ip_map_prefix @ ip8 @ html_suffix \<notin>
     files (fst (process_ip_request ?E ?m (JStr ip8) empty_world))"
    using artifact_removed [OF t g] by simp
  moreover have "snd (process_ip_request ?E ?m (JStr ip8) empty_world)
      = Inl (TelegramAPIError timed_out)"
    using process_ip_request_with_map [OF t g]
    by (simp add: send_info_and_map_def send_def example_env_simps no_documents_def
        ip_map_prefix_def)
  ultimately show ?thesis by simp
qed



text \<open>
  C7. When the typing indicator has been accepted and the lookup gives a record, the
  calls up to the lookup are that one indicator and the lookup's request. With a file
  name, and the text message accepted, the handler then sends the formatted text as it is
  and the file as a document with the caption; without a file name it sends one message,
  the formatted text with the warning appended, and no document.
\<close>

theorem lookup_reply:
  assumes "telegram env (SendChatAction (msg_chat_id m) typing) = None"
      and "get_ip_info env ip (emit (SendChatAction (msg_chat_id m) typing) w)
             = (w2, Some d, fn)"
  shows "trace w2 = trace w @ [SendChatAction (msg_chat_id m) typing,
                               HttpGet (geo_url @ py_str env ip) 10]
     \<and> (fn \<noteq> JNull \<longrightarrow>
          (\<exists>f. fn = JStr f
             \<and> (telegram env (Answer (msg_chat_id m) (info_text env d) None) = None \<longrightarrow>
                  trace (fst (process_ip_request env m ip w)) =
                    trace w2 @ [Answer (msg_chat_id m) (info_text env d) None,
                                AnswerDocument (msg_chat_id m) f map_caption])))
     \<and> (fn = JNull \<longrightarrow>
          trace (fst (process_ip_request env m ip w)) =
            trace w2 @ [Answer (msg_chat_id m) (info_text env d @ map_warning) None])"
proof (intro conjI impI)
  show "trace w2 = trace w @ [SendChatAction (msg_chat_id m) typing,
                               HttpGet (geo_url @ py_str env ip) 10]"
    using get_ip_info_trace [OF assms(2)] by (simp add: emit_def)
next
  assume "fn \<noteq> JNull"
  with get_ip_info_filename [OF assms(2)] obtain f where f: "fn = JStr f" "f \<noteq> []"
    by blast
  have p: "process_ip_request env m ip w =
           (remove_if_exists f (fst (send_info_and_map env m (info_text env d) f w2)),
            snd (send_info_and_map env m (info_text env d) f w2))"
    using assms f by (simp add: process_ip_request_with_map)
  show "\<exists>f. fn = JStr f
             \<and> (telegram env (Answer (msg_chat_id m) (info_text env d) None) = None \<longrightarrow>
                  trace (fst (process_ip_request env m ip w)) =
                    trace w2 @ [Answer (msg_chat_id m) (info_text env d) None,
                                AnswerDocument (msg_chat_id m) f map_caption])"
  proof (intro exI [of _ f] conjI)
    show "fn = JStr f" by (rule f(1))
    show "telegram env (Answer (msg_chat_id m) (info_text env d) None) = None \<longrightarrow>
          trace (fst (process_ip_request env m ip w)) =
            trace w2 @ [Answer (msg_chat_id m) (info_text env d) None,
                        AnswerDocument (msg_chat_id m) f map_caption]"
      by (simp add: p remove_if_exists_trace send_info_and_map_trace)
  qed
next
  assume "fn = JNull"
  with assms have "process_ip_request env m ip w =
           send env (Answer (msg_chat_id m) (info_text env d @ map_warning) None) w2"
    by (simp add: process_ip_request_without_map)
  then show "trace (fst (process_ip_request env m ip w)) =
            trace w2 @ [Answer (msg_chat_id m) (info_text env d @ map_warning) None]"
    by (simp add: send_trace)
qed

theorem lookup_reply_witness:
  "trace (fst (process_ip_request
       (example_env (web (Inr JNull) (Inr (JObj fields_california))) quiet)
       (message_of ip8) (JStr ip8) empty_world))
     = [SendChatAction 1 typing, HttpGet (geo_url @ ip8) 10,
        Answer 1 reply_california None,
        AnswerDocument 1 (ip_map_prefix @ ip8 @ html_suffix) map_caption]
   \<and> trace (fst (process_ip_request
       (example_env (web (Inr JNull) (Inr (JObj fields_nowhere))) quiet)
       (message_of ip8) (JStr ip8) empty_world))
     = [SendChatAction 1 typing, HttpGet (geo_url @ ip8) 10,
        Answer 1 reply_nowhere None]"
proof -
  let ?m = "message_of ip8"
  let ?w = "emit (SendChatAction (msg_chat_id ?m) typing) empty_world"
  have t: "\<And>http. telegram (example_env http quiet)
             (SendChatAction (msg_chat_id ?m) typing) = None"
    by (simp add: example_env_simps quiet_def)
  from lookup_reply [OF t get_ip_info_california [of "Inr JNull" quiet ?w]]
  have "trace (fst (process_ip_request
       (example_env (web (Inr JNull) (Inr (JObj fields_california))) quiet)
       ?m (JStr ip8) empty_world))
     = [SendChatAction 1 typing, HttpGet (geo_url @ ip8) 10,
        Answer 1 reply_california None,
        AnswerDocument 1 (ip_map_prefix @ ip8 @ html_suffix) map_caption]"
    by (simp add: example_env_simps(1) quiet_def emit_def message_of_def empty_world_def
        reply_examples)
  moreover
  from lookup_reply [OF t get_ip_info_nowhere [of "Inr JNull" quiet ?w]]
  have "trace (fst (process_ip_request
       (example_env (web (Inr JNull) (Inr (JObj fields_nowhere))) quiet)
       ?m (JStr ip8) empty_world))
     = [SendChatAction 1 typing, HttpGet (geo_url @ ip8) 10,
        Answer 1 reply_nowhere None]"
    by (simp add: example_env_simps(1) quiet_def emit_def message_of_def empty_world_def
        reply_examples)
  ultimately show ?thesis by simp
qed



text \<open>
  C6. A text that the dispatcher takes for "my ip" (not the start command, lower-cased
  equal to the word) reaches \<open>cmd_my_ip\<close>. When the self-IP call fails with a request
  exception, the handler makes that call and sends the request for manual entry, and
  nothing else: the URL of the self-IP service is not one of the geo lookup. When the
  call yields an object with a usable \<open>ip\<close>, the handler is \<open>process_ip_request\<close> on
  exactly that value, and once the typing indicator is accepted the geo lookup is made
  for it.
\<close>

theorem my_ip_resolution:
  assumes "\<not> command_start env m" and "msg_text m = Some t" and "t \<noteq> []"
      and "lower env t = my_ip_word"
  shows "(http_get_json env ipify_url 5 = Inl e \<and> is_RequestException e \<longrightarrow>
            trace (fst (handle_message env m w)) =
              trace w @ [HttpGet ipify_url 5, Answer (msg_chat_id m) manual_entry_text None])
     \<and> (\<forall>u. geo_url @ u \<noteq> ipify_url)
     \<and> (http_get_json env ipify_url 5 = Inr (JObj r) \<and> truthy (dict_get r k_ip JNull) \<longrightarrow>
            handle_message env m w =
              process_ip_request env m (dict_get r k_ip JNull) (emit (HttpGet ipify_url 5) w)
            \<and> (telegram env (SendChatAction (msg_chat_id m) typing) = None \<longrightarrow>
                 (\<exists>rest. trace (fst (handle_message env m w)) =
                    trace w @ [HttpGet ipify_url 5, SendChatAction (msg_chat_id m) typing,
                               HttpGet (geo_url @ py_str env (dict_get r k_ip JNull)) 10]
                      @ rest)))"
proof -
  have h: "handle_message env m w = cmd_my_ip env m w"
    using assms by (rule handle_message_my_ip)
  show ?thesis
  proof (intro conjI impI allI)
    assume "http_get_json env ipify_url 5 = Inl e \<and> is_RequestException e"
    then show "trace (fst (handle_message env m w)) =
              trace w @ [HttpGet ipify_url 5, Answer (msg_chat_id m) manual_entry_text None]"
      by (simp add: h cmd_my_ip_request_error send_trace emit_def)
  next
    fix u show "geo_url @ u \<noteq> ipify_url"
      by (simp add: geo_url_def ipify_url_def)
  next
    assume "http_get_json env ipify_url 5 = Inr (JObj r) \<and> truthy (dict_get r k_ip JNull)"
    then show "handle_message env m w =
              process_ip_request env m (dict_get r k_ip JNull) (emit (HttpGet ipify_url 5) w)"
      by (simp add: h cmd_my_ip_usable)
  next
    assume a: "http_get_json env ipify_url 5 = Inr (JObj r) \<and> truthy (dict_get r k_ip JNull)"
      and t: "telegram env (SendChatAction (msg_chat_id m) typing) = None"
    from a have p: "handle_message env m w =
              process_ip_request env m (dict_get r k_ip JNull) (emit (HttpGet ipify_url 5) w)"
      by (simp add: h cmd_my_ip_usable)
    from process_ip_request_begins [OF t, of "dict_get r k_ip JNull" "emit (HttpGet ipify_url 5) w"]
    show "\<exists>rest. trace (fst (handle_message env m w)) =
                    trace w @ [HttpGet ipify_url 5, SendChatAction (msg_chat_id m) typing,
                               HttpGet (geo_url @ py_str env (dict_get r k_ip JNull)) 10]
                      @ rest"
      by (simp add: p emit_def)
  qed
qed

lemma button_my_ip_lower:
  "lower_basic button_my_ip = my_ip_word" "button_my_ip \<noteq> []" "button_my_ip \<noteq> slash_start"
  by (simp_all add: lower_basic_def button_my_ip_def my_ip_word_def slash_start_def)

theorem my_ip_resolution_witness:
  "trace (fst (handle_message
      (example_env (web (Inl (RequestException timed_out)) (Inr (JObj fields_california))) quiet)
      (message_of button_my_ip) empty_world))
     = [HttpGet ipify_url 5, Answer 1 manual_entry_text None]
   \<and> handle_message
       (example_env (web (Inr (JObj [(k_ip, JStr ip8)])) (Inr (JObj fields_california))) quiet)
       (message_of button_my_ip) empty_world
     = process_ip_request
       (example_env (web (Inr (JObj [(k_ip, JStr ip8)])) (Inr (JObj fields_california))) quiet)
       (message_of button_my_ip) (JStr ip8) (emit (HttpGet ipify_url 5) empty_world)"
  using my_ip_resolution
    [of "example_env (web (Inl (RequestException timed_out)) (Inr (JObj fields_california))) quiet"
        "message_of button_my_ip" button_my_ip "RequestException timed_out" empty_world "[]"]
    my_ip_resolution
    [of "example_env (web (Inr (JObj [(k_ip, JStr ip8)])) (Inr (JObj fields_california))) quiet"
        "message_of button_my_ip" button_my_ip "RequestException timed_out" empty_world
        "[(k_ip, JStr ip8)]"]
  by (simp add: example_env_simps button_my_ip_lower web_def message_of_def empty_world_def
      dict_get_def ip8_def)

text \<open>
  C8, as the program has it. The name of the map file is \<open>ip_map_\<close>, the \<open>query\<close>
  field of the provider's answer, and \<open>.html\<close>: it is a function of that field, and it
  is the name built from the looked-up address whenever the provider echoes the address
  there.
\<close>

theorem filename_from_query:
  assumes "get_ip_info env ip w = (w', Some d, fn)" and "fn \<noteq> JNull"
  shows "\<exists>r q. http_get_json env (geo_url @ py_str env ip) 10 = Inr (JObj r)
           \<and> map_of r k_query = Some q
           \<and> fn = JStr (ip_map_prefix @ py_str env q @ html_suffix)
           \<and> (q = ip \<longrightarrow> fn = JStr (ip_map_prefix @ py_str env ip @ html_suffix))"
  using get_ip_info_record [OF assms(1)] assms(2) by auto

theorem filename_from_query_witness:
  "\<exists>r q. http_get_json (example_env (web (Inr JNull) (Inr (JObj fields_california))) quiet)
             (geo_url @ py_str (example_env (web (Inr JNull) (Inr (JObj fields_california))) quiet)
                (JStr ip8)) 10 = Inr (JObj r)
        \<and> map_of r k_query = Some q
        \<and> JStr (ip_map_prefix @ ip8 @ html_suffix) =
            JStr (ip_map_prefix
                  @ py_str (example_env (web (Inr JNull) (Inr (JObj fields_california))) quiet) q
                  @ html_suffix)
        \<and> (q = JStr ip8 \<longrightarrow> JStr (ip_map_prefix @ ip8 @ html_suffix) =
            JStr (ip_map_prefix
                  @ py_str (example_env (web (Inr JNull) (Inr (JObj fields_california))) quiet)
                      (JStr ip8)
                  @ html_suffix))"
  using filename_from_query [OF get_ip_info_california [of "Inr JNull" quiet empty_world]]
  by simp

text \<open>
  C8, as the claim words it, fails: the lookup of 8.8.8.8, answered with the \<open>query\<close>
  1.1.1.1, writes the map to the file named after 1.1.1.1.
\<close>

theorem filename_from_ip_counterexample:
  "snd (get_ip_info (example_env (web (Inr JNull) (Inr (JObj fields_other_query))) quiet)
          (JStr ip8) empty_world)
     = (Some (build_data fields_other_query), JStr (ip_map_prefix @ ip1 @ html_suffix))
   \<and> ip_map_prefix @ ip1 @ html_suffix \<noteq> ip_map_prefix @ ip8 @ html_suffix"
  by (simp add: get_ip_info_def get_ip_info_try_def example_env_def web_def Let_def emit_def
      py_str_def fields_other_query_def dict_get_def dict_subscript_def empty_world_def
      literal_defs)

text \<open>
  C9. A text message that is not the start command, whose lower-cased text is neither
  the help word nor "my ip", and that the validator does not accept, passes no filter:
  nothing is sent, no call is made, the state is unchanged and nothing is raised.
\<close>

theorem unmatched_message_ignored:
  assumes "\<not> command_start env m" and "msg_text m = Some t"
      and "lower env t \<noteq> help_word" and "lower env t \<noteq> my_ip_word"
      and "is_valid_ip t \<noteq> Inr True"
  shows "handle_message env m w = (w, Inr ())"
proof -
  obtain b where "is_valid_ip t = Inr b"
    using is_valid_ip_returns by blast
  with assms have "text_is_ip m = Inr False"
    by (cases b) (auto simp: text_is_ip_def)
  with assms show ?thesis
    by (simp add: handle_message_def text_is_def)
qed

lemma not_an_ip_unmatched:
  "not_an_ip \<noteq> slash_start"
  "lower_basic not_an_ip \<noteq> help_word" "lower_basic not_an_ip \<noteq> my_ip_word"
  by (simp_all add: not_an_ip_def lower_basic_def slash_start_def help_word_def
      my_ip_word_def)

theorem unmatched_message_ignored_witness:
  "handle_message (example_env (web (Inr JNull) (Inr JNull)) quiet) (message_of not_an_ip)
     empty_world = (empty_world, Inr ())"
  using unmatched_message_ignored
    [of "example_env (web (Inr JNull) (Inr JNull)) quiet" "message_of not_an_ip" not_an_ip
        empty_world]
  by (simp add: example_env_simps lenient_examples not_an_ip_unmatched message_of_def)

text \<open>
  C10, as the program has it. When the self-IP call yields an object whose \<open>ip\<close> is
  missing, \<open>None\<close>, empty or otherwise false, \<open>cmd_my_ip\<close> makes that call and sends one
  message, that the address could not be determined, which is not the request for manual
  entry; the geo lookup is not called.
\<close>

theorem no_usable_ip:
  assumes "http_get_json env ipify_url 5 = Inr (JObj r)"
      and "\<not> truthy (dict_get r k_ip JNull)"
  shows "trace (fst (cmd_my_ip env m w)) =
           trace w @ [HttpGet ipify_url 5, Answer (msg_chat_id m) cannot_determine_text None]
     \<and> cannot_determine_text \<noteq> manual_entry_text"
  using cmd_my_ip_unusable [OF assms]
  by (simp add: send_trace emit_def cannot_determine_text_def manual_entry_text_def)

theorem no_usable_ip_witness:
  "trace (fst (cmd_my_ip (example_env (web (Inr (JObj [])) (Inr JNull)) quiet)
                 (message_of button_my_ip) empty_world))
     = [HttpGet ipify_url 5, Answer 1 cannot_determine_text None]
   \<and> trace (fst (cmd_my_ip (example_env (web (Inr (JObj [(k_ip, JNull)])) (Inr JNull)) quiet)
                 (message_of button_my_ip) empty_world))
     = [HttpGet ipify_url 5, Answer 1 cannot_determine_text None]
   \<and> trace (fst (cmd_my_ip (example_env (web (Inr (JObj [(k_ip, JStr [])])) (Inr JNull)) quiet)
                 (message_of button_my_ip) empty_world))
     = [HttpGet ipify_url 5, Answer 1 cannot_determine_text None]"
  using no_usable_ip
    [of "example_env (web (Inr (JObj [])) (Inr JNull)) quiet" "[]"
        "message_of button_my_ip" empty_world]
    no_usable_ip
    [of "example_env (web (Inr (JObj [(k_ip, JNull)])) (Inr JNull)) quiet" "[(k_ip, JNull)]"
        "message_of button_my_ip" empty_world]
    no_usable_ip
    [of "example_env (web (Inr (JObj [(k_ip, JStr [])])) (Inr JNull)) quiet"
        "[(k_ip, JStr [])]" "message_of button_my_ip" empty_world]
  by (simp add: example_env_simps web_def dict_get_def message_of_def empty_world_def)

text \<open>
  C10, as the claim words it, fails: a body that is a list has no \<open>ip\<close> field, and on it
  the handler makes the self-IP call, sends no message and raises.
\<close>

theorem body_without_fields_counterexample:
  "cmd_my_ip (example_env (web (Inr (JArr [])) (Inr JNull)) quiet)
     (message_of button_my_ip) empty_world
   = (\<lparr>files = {}, trace = [HttpGet ipify_url 5]\<rparr>, Inl (no_attribute_get (JArr [])))"
  by (simp add: cmd_my_ip_def cmd_my_ip_try_def Let_def example_env_simps web_def emit_def
      empty_world_def no_attribute_get_def)

end
